theory Spec2Isabelle
  imports Complex_Main "HOL-Library.Word"
begin

section \<open>The OpenGL triangle demo: \<^verbatim>\<open>src/application/src/main.cpp\<close>\<close>

text \<open>
  The program is one C++ file: a lookup of error names, a loop that drains the OpenGL
  error queue, two checked-call macros, a printer of shader info logs, and \<^verbatim>\<open>main\<close>.
  Everything else it touches (GLFW, GLEW, the OpenGL driver, the C++ streams) is a
  library. The model below keeps the code of the file as it is written and makes the
  libraries an explicit environment: every library call is logged in a trace, and what
  the libraries answer is read from a record of answers.
\<close>

subsection \<open>Types and constants of the library headers\<close>

text \<open>
  \<^verbatim>\<open>GLenum\<close> and \<^verbatim>\<open>GLuint\<close> are \<^verbatim>\<open>unsigned int\<close>; \<^verbatim>\<open>GLint\<close>, \<^verbatim>\<open>GLsizei\<close> and
  \<^verbatim>\<open>int\<close> are signed and no arithmetic is done on them here, so they are \<open>int\<close>.
  The numeric values of the symbolic constants are those of the OpenGL registry and of
  \<^verbatim>\<open>GLFW/glfw3.h\<close>, \<^verbatim>\<open>GL/glew.h\<close>; the headers are not part of the repository.
\<close>

type_synonym GLenum = "32 word"
type_synonym GLuint = "32 word"
type_synonym GLint = int

definition GL_NO_ERROR :: GLenum where "GL_NO_ERROR = 0"
definition GL_INVALID_ENUM :: GLenum where "GL_INVALID_ENUM = 0x0500"
definition GL_INVALID_VALUE :: GLenum where "GL_INVALID_VALUE = 0x0501"
definition GL_INVALID_OPERATION :: GLenum where "GL_INVALID_OPERATION = 0x0502"
definition GL_OUT_OF_MEMORY :: GLenum where "GL_OUT_OF_MEMORY = 0x0505"
definition GL_INVALID_FRAMEBUFFER_OPERATION :: GLenum where
  "GL_INVALID_FRAMEBUFFER_OPERATION = 0x0506"

definition GL_TRIANGLES :: GLenum where "GL_TRIANGLES = 0x0004"
definition GL_UNSIGNED_INT :: GLenum where "GL_UNSIGNED_INT = 0x1405"
definition GL_FLOAT :: GLenum where "GL_FLOAT = 0x1406"
definition GL_COLOR_BUFFER_BIT :: "32 word" where "GL_COLOR_BUFFER_BIT = 0x00004000"
definition GL_ARRAY_BUFFER :: GLenum where "GL_ARRAY_BUFFER = 0x8892"
definition GL_ELEMENT_ARRAY_BUFFER :: GLenum where "GL_ELEMENT_ARRAY_BUFFER = 0x8893"
definition GL_STATIC_DRAW :: GLenum where "GL_STATIC_DRAW = 0x88E4"
definition GL_FRAGMENT_SHADER :: GLenum where "GL_FRAGMENT_SHADER = 0x8B30"
definition GL_VERTEX_SHADER :: GLenum where "GL_VERTEX_SHADER = 0x8B31"
definition GL_COMPILE_STATUS :: GLenum where "GL_COMPILE_STATUS = 0x8B81"
definition GL_INFO_LOG_LENGTH :: GLenum where "GL_INFO_LOG_LENGTH = 0x8B84"
definition GL_FALSE :: int where "GL_FALSE = 0"
definition GL_TRUE :: int where "GL_TRUE = 1"
definition GLEW_OK :: GLenum where "GLEW_OK = 0"
definition GLFW_CONTEXT_VERSION_MAJOR :: int where "GLFW_CONTEXT_VERSION_MAJOR = 0x00022002"
definition GLFW_CONTEXT_VERSION_MINOR :: int where "GLFW_CONTEXT_VERSION_MINOR = 0x00022003"
definition GLFW_OPENGL_FORWARD_COMPAT :: int where "GLFW_OPENGL_FORWARD_COMPAT = 0x00022006"
definition GLFW_OPENGL_PROFILE :: int where "GLFW_OPENGL_PROFILE = 0x00022008"
definition GLFW_OPENGL_CORE_PROFILE :: int where "GLFW_OPENGL_CORE_PROFILE = 0x00032001"

subsection \<open>\<^verbatim>\<open>GlErrorToString\<close> (lines 7 to 17)\<close>

text \<open>
  The \<^verbatim>\<open>switch\<close> compares the code with each label in turn; the labels are distinct
  constants, so the first label that is equal is the only one.
\<close>

definition GlErrorToString :: "GLenum \<Rightarrow> string" where
  "GlErrorToString e =
    (if e = GL_NO_ERROR then ''GL_NO_ERROR''
     else if e = GL_INVALID_ENUM then ''GL_INVALID_ENUM''
     else if e = GL_INVALID_VALUE then ''GL_INVALID_VALUE''
     else if e = GL_INVALID_OPERATION then ''GL_INVALID_OPERATION''
     else if e = GL_INVALID_FRAMEBUFFER_OPERATION then ''GL_INVALID_FRAMEBUFFER_OPERATION''
     else if e = GL_OUT_OF_MEMORY then ''GL_OUT_OF_MEMORY''
     else ''Unknown GL error'')"

subsection \<open>The build configuration\<close>

text \<open>
  Three things are fixed when the file is compiled: whether \<^verbatim>\<open>_DEBUG\<close> is defined
  (line 28), whether \<^verbatim>\<open>__APPLE__\<close> is non-zero (line 56), and the text of
  \<^verbatim>\<open>__FILE__\<close>.
\<close>

record config =
  debug :: bool
  apple :: bool
  source_file :: string

subsection \<open>Library calls, the trace and the environment\<close>

text \<open>
  The out-parameters \<^verbatim>\<open>&VAO\<close>, \<^verbatim>\<open>&VBO\<close> and \<^verbatim>\<open>&EBO\<close> of the \<^verbatim>\<open>glGen*\<close> calls
  are named; the arrays handed to \<^verbatim>\<open>glBufferData\<close> are logged with their contents.
  The literals \<^verbatim>\<open>0.0f\<close>, \<^verbatim>\<open>0.5f\<close> and \<^verbatim>\<open>-0.5f\<close> are dyadic and exact in binary32, so
  the floats of the vertex array are the reals they denote.
\<close>

datatype var = Addr_VAO | Addr_VBO | Addr_EBO

datatype buffer_data = Floats "real list" | UInts "GLuint list"

datatype api_call =
    GlfwInit
  | GlfwWindowHint int int
  | GlfwCreateWindow int int string
  | GlfwTerminate
  | GlfwMakeContextCurrent nat
  | Set_glewExperimental int
  | GlewInit
  | GlewGetErrorString GLenum
  | GlfwWindowShouldClose nat
  | GlfwSwapBuffers nat
  | GlfwPollEvents
  | GlGenVertexArrays int var
  | GlBindVertexArray GLuint
  | GlGenBuffers int var
  | GlBindBuffer GLenum GLuint
  | GlBufferData GLenum nat buffer_data GLenum
  | GlCreateShader GLenum
  | GlShaderSource GLuint int "string list"
  | GlCompileShader GLuint
  | GlGetShaderiv GLuint GLenum
  | GlGetShaderInfoLog GLuint int
  | GlCreateProgram
  | GlAttachShader GLuint GLuint
  | GlBindFragDataLocation GLuint GLuint string
  | GlLinkProgram GLuint
  | GlUseProgram GLuint
  | GlGetAttribLocation GLuint string
  | GlEnableVertexAttribArray GLuint
  | GlVertexAttribPointer GLuint int GLenum int int nat
  | GlClear "32 word"
  | GlDrawElements GLenum int GLenum nat
  | GlDeleteProgram GLuint
  | GlDeleteShader GLuint
  | GlDeleteBuffers int "GLuint list"
  | GlDeleteVertexArrays int "GLuint list"

text \<open>
  The trace holds, in program order, every library call but \<^verbatim>\<open>glGetError\<close> as a
  \<open>Call\<close>, every \<^verbatim>\<open>glGetError\<close> with the code it returned, and every statement that
  writes to \<^verbatim>\<open>std::cerr\<close> or \<^verbatim>\<open>std::cout\<close> with the text it wrote.
\<close>

datatype event = Call api_call | GetError GLenum | Stderr string | Stdout string

text \<open>
  The state is the context's queue of recorded errors and the trace so far.
\<close>

record state =
  errors :: "GLenum list"
  trace :: "event list"

text \<open>
  What the libraries answer. A window pointer is a number, \<open>0\<close> for \<^verbatim>\<open>nullptr\<close>.
  The errors a call records and the close flag of the window may depend on everything
  that happened before (the trace up to and including the call). Object names and the
  parameters of a shader object are read per object; \<open>None\<close> for a shader parameter
  means that the query fails and leaves the variable it was to write as it was.
\<close>

record env =
  glfwInit_result :: int
  glfwCreateWindow_result :: nat
  glewInit_result :: GLenum
  glewGetErrorString_result :: "GLenum \<Rightarrow> string"
  glfwWindowShouldClose_result :: "event list \<Rightarrow> int"
  raised :: "event list \<Rightarrow> GLenum list"
  generated :: "var \<Rightarrow> GLuint"
  glCreateShader_result :: "GLenum \<Rightarrow> GLuint"
  glCreateProgram_result :: GLuint
  glGetAttribLocation_result :: "GLuint \<Rightarrow> string \<Rightarrow> GLint"
  shader_parameter :: "GLuint \<Rightarrow> GLenum \<Rightarrow> GLint option"
  shader_info_log :: "GLuint \<Rightarrow> string"

text \<open>
  A library call is logged, and the errors it records are queued behind the pending
  ones.
\<close>

definition ext :: "env \<Rightarrow> api_call \<Rightarrow> state \<Rightarrow> state" where
  "ext E c s =
    (let tr = trace s @ [Call c] in \<lparr>errors = errors s @ raised E tr, trace = tr\<rparr>)"

text \<open>
  A library function is an action on the state that makes its call and returns a value:
  what the function returns, or what it writes through its out-parameter, or \<open>()\<close>.
\<close>

definition call :: "env \<Rightarrow> api_call \<Rightarrow> 'a \<Rightarrow> state \<Rightarrow> 'a \<times> state" where
  "call E c r s = (r, ext E c s)"

text \<open>
  \<^verbatim>\<open>glGetError\<close> returns the oldest recorded error and forgets it, and
  \<^verbatim>\<open>GL_NO_ERROR\<close> when none is recorded.
\<close>

definition glGetError :: "state \<Rightarrow> GLenum \<times> state" where
  "glGetError s =
    (case errors s of
       [] \<Rightarrow> (GL_NO_ERROR, s\<lparr>trace := trace s @ [GetError GL_NO_ERROR]\<rparr>)
     | e # es \<Rightarrow> (e, \<lparr>errors = es, trace = trace s @ [GetError e]\<rparr>))"

definition cerr :: "string \<Rightarrow> state \<Rightarrow> state" where
  "cerr t s = s\<lparr>trace := trace s @ [Stderr t]\<rparr>"

definition cout :: "string \<Rightarrow> state \<Rightarrow> state" where
  "cout t s = s\<lparr>trace := trace s @ [Stdout t]\<rparr>"

text \<open>The GLFW and GLEW calls of \<^verbatim>\<open>main\<close>.\<close>

definition glfwInit :: "env \<Rightarrow> state \<Rightarrow> int \<times> state" where
  "glfwInit E = call E GlfwInit (glfwInit_result E)"

definition glfwWindowHint :: "env \<Rightarrow> int \<Rightarrow> int \<Rightarrow> state \<Rightarrow> unit \<times> state" where
  "glfwWindowHint E hint v = call E (GlfwWindowHint hint v) ()"

definition glfwCreateWindow :: "env \<Rightarrow> int \<Rightarrow> int \<Rightarrow> string \<Rightarrow> state \<Rightarrow> nat \<times> state" where
  "glfwCreateWindow E w h title = call E (GlfwCreateWindow w h title) (glfwCreateWindow_result E)"

definition glfwTerminate :: "env \<Rightarrow> state \<Rightarrow> unit \<times> state" where
  "glfwTerminate E = call E GlfwTerminate ()"

definition glfwMakeContextCurrent :: "env \<Rightarrow> nat \<Rightarrow> state \<Rightarrow> unit \<times> state" where
  "glfwMakeContextCurrent E window = call E (GlfwMakeContextCurrent window) ()"

text \<open>The assignment \<^verbatim>\<open>glewExperimental = GL_TRUE\<close> to the variable of GLEW.\<close>

definition set_glewExperimental :: "env \<Rightarrow> int \<Rightarrow> state \<Rightarrow> unit \<times> state" where
  "set_glewExperimental E v = call E (Set_glewExperimental v) ()"

definition glewInit :: "env \<Rightarrow> state \<Rightarrow> GLenum \<times> state" where
  "glewInit E = call E GlewInit (glewInit_result E)"

definition glewGetErrorString :: "env \<Rightarrow> GLenum \<Rightarrow> state \<Rightarrow> string \<times> state" where
  "glewGetErrorString E e = call E (GlewGetErrorString e) (glewGetErrorString_result E e)"

definition glfwWindowShouldClose :: "env \<Rightarrow> nat \<Rightarrow> state \<Rightarrow> int \<times> state" where
  "glfwWindowShouldClose E window s =
    (let s' = ext E (GlfwWindowShouldClose window) s
     in (glfwWindowShouldClose_result E (trace s'), s'))"

definition glfwSwapBuffers :: "env \<Rightarrow> nat \<Rightarrow> state \<Rightarrow> unit \<times> state" where
  "glfwSwapBuffers E window = call E (GlfwSwapBuffers window) ()"

definition glfwPollEvents :: "env \<Rightarrow> state \<Rightarrow> unit \<times> state" where
  "glfwPollEvents E = call E GlfwPollEvents ()"

text \<open>The OpenGL calls of the file.\<close>

definition glGenVertexArrays :: "env \<Rightarrow> int \<Rightarrow> var \<Rightarrow> state \<Rightarrow> GLuint \<times> state" where
  "glGenVertexArrays E n v = call E (GlGenVertexArrays n v) (generated E v)"

definition glBindVertexArray :: "env \<Rightarrow> GLuint \<Rightarrow> state \<Rightarrow> unit \<times> state" where
  "glBindVertexArray E a = call E (GlBindVertexArray a) ()"

definition glGenBuffers :: "env \<Rightarrow> int \<Rightarrow> var \<Rightarrow> state \<Rightarrow> GLuint \<times> state" where
  "glGenBuffers E n v = call E (GlGenBuffers n v) (generated E v)"

definition glBindBuffer :: "env \<Rightarrow> GLenum \<Rightarrow> GLuint \<Rightarrow> state \<Rightarrow> unit \<times> state" where
  "glBindBuffer E target b = call E (GlBindBuffer target b) ()"

definition glBufferData ::
  "env \<Rightarrow> GLenum \<Rightarrow> nat \<Rightarrow> buffer_data \<Rightarrow> GLenum \<Rightarrow> state \<Rightarrow> unit \<times> state" where
  "glBufferData E target sz d usage = call E (GlBufferData target sz d usage) ()"

definition glCreateShader :: "env \<Rightarrow> GLenum \<Rightarrow> state \<Rightarrow> GLuint \<times> state" where
  "glCreateShader E ty = call E (GlCreateShader ty) (glCreateShader_result E ty)"

definition glShaderSource ::
  "env \<Rightarrow> GLuint \<Rightarrow> int \<Rightarrow> string list \<Rightarrow> state \<Rightarrow> unit \<times> state" where
  "glShaderSource E sh n srcs = call E (GlShaderSource sh n srcs) ()"

definition glCompileShader :: "env \<Rightarrow> GLuint \<Rightarrow> state \<Rightarrow> unit \<times> state" where
  "glCompileShader E sh = call E (GlCompileShader sh) ()"

text \<open>
  \<^verbatim>\<open>glGetShaderiv(sh, pname, &v)\<close>: the value of \<^verbatim>\<open>v\<close> after the call, given its value
  before.
\<close>

definition glGetShaderiv ::
  "env \<Rightarrow> GLuint \<Rightarrow> GLenum \<Rightarrow> GLint \<Rightarrow> state \<Rightarrow> GLint \<times> state" where
  "glGetShaderiv E sh pname v =
    call E (GlGetShaderiv sh pname)
      (case shader_parameter E sh pname of None \<Rightarrow> v | Some v' \<Rightarrow> v')"

text \<open>
  \<^verbatim>\<open>glGetShaderInfoLog(sh, bufSize, &written, buf)\<close>: the contents of the buffer after
  the call. At most \<open>bufSize - 1\<close> characters of the log are written, then a NUL; the
  rest of the buffer is as it was.
\<close>

definition glGetShaderInfoLog ::
  "env \<Rightarrow> GLuint \<Rightarrow> GLint \<Rightarrow> string \<Rightarrow> state \<Rightarrow> string \<times> state" where
  "glGetShaderInfoLog E sh bufSize buf =
    call E (GlGetShaderInfoLog sh bufSize)
      (let txt = take (nat (bufSize - 1)) (shader_info_log E sh)
       in txt @ [CHR 0x00] @ drop (length txt + 1) buf)"

definition glCreateProgram :: "env \<Rightarrow> state \<Rightarrow> GLuint \<times> state" where
  "glCreateProgram E = call E GlCreateProgram (glCreateProgram_result E)"

definition glAttachShader :: "env \<Rightarrow> GLuint \<Rightarrow> GLuint \<Rightarrow> state \<Rightarrow> unit \<times> state" where
  "glAttachShader E p sh = call E (GlAttachShader p sh) ()"

definition glBindFragDataLocation ::
  "env \<Rightarrow> GLuint \<Rightarrow> GLuint \<Rightarrow> string \<Rightarrow> state \<Rightarrow> unit \<times> state" where
  "glBindFragDataLocation E p n name = call E (GlBindFragDataLocation p n name) ()"

definition glLinkProgram :: "env \<Rightarrow> GLuint \<Rightarrow> state \<Rightarrow> unit \<times> state" where
  "glLinkProgram E p = call E (GlLinkProgram p) ()"

definition glUseProgram :: "env \<Rightarrow> GLuint \<Rightarrow> state \<Rightarrow> unit \<times> state" where
  "glUseProgram E p = call E (GlUseProgram p) ()"

definition glGetAttribLocation :: "env \<Rightarrow> GLuint \<Rightarrow> string \<Rightarrow> state \<Rightarrow> GLint \<times> state" where
  "glGetAttribLocation E p name =
    call E (GlGetAttribLocation p name) (glGetAttribLocation_result E p name)"

definition glEnableVertexAttribArray :: "env \<Rightarrow> GLuint \<Rightarrow> state \<Rightarrow> unit \<times> state" where
  "glEnableVertexAttribArray E i = call E (GlEnableVertexAttribArray i) ()"

definition glVertexAttribPointer ::
  "env \<Rightarrow> GLuint \<Rightarrow> int \<Rightarrow> GLenum \<Rightarrow> int \<Rightarrow> int \<Rightarrow> nat \<Rightarrow> state \<Rightarrow> unit \<times> state" where
  "glVertexAttribPointer E i n ty normalized stride pointer =
    call E (GlVertexAttribPointer i n ty normalized stride pointer) ()"

definition glClear :: "env \<Rightarrow> 32 word \<Rightarrow> state \<Rightarrow> unit \<times> state" where
  "glClear E msk = call E (GlClear msk) ()"

definition glDrawElements ::
  "env \<Rightarrow> GLenum \<Rightarrow> int \<Rightarrow> GLenum \<Rightarrow> nat \<Rightarrow> state \<Rightarrow> unit \<times> state" where
  "glDrawElements E md cnt ty offs = call E (GlDrawElements md cnt ty offs) ()"

definition glDeleteProgram :: "env \<Rightarrow> GLuint \<Rightarrow> state \<Rightarrow> unit \<times> state" where
  "glDeleteProgram E p = call E (GlDeleteProgram p) ()"

definition glDeleteShader :: "env \<Rightarrow> GLuint \<Rightarrow> state \<Rightarrow> unit \<times> state" where
  "glDeleteShader E sh = call E (GlDeleteShader sh) ()"

definition glDeleteBuffers :: "env \<Rightarrow> int \<Rightarrow> GLuint list \<Rightarrow> state \<Rightarrow> unit \<times> state" where
  "glDeleteBuffers E n bs = call E (GlDeleteBuffers n bs) ()"

definition glDeleteVertexArrays :: "env \<Rightarrow> int \<Rightarrow> GLuint list \<Rightarrow> state \<Rightarrow> unit \<times> state" where
  "glDeleteVertexArrays E n arrs = call E (GlDeleteVertexArrays n arrs) ()"

subsection \<open>Stream formatting\<close>

text \<open>
  \<^verbatim>\<open>operator<<\<close> on an \<^verbatim>\<open>int\<close> in decimal mode, and on an \<^verbatim>\<open>unsigned int\<close> after
  \<^verbatim>\<open>std::hex\<close>: the digits of the number, most significant first, with no padding and no
  prefix, lower-case letters for the hexadecimal digits above nine, and a minus sign
  before a negative decimal.
\<close>

definition digit_char :: "nat \<Rightarrow> char" where
  "digit_char d = ''0123456789abcdef'' ! d"

function digits_of :: "nat \<Rightarrow> nat \<Rightarrow> string" where
  "digits_of b n =
    (if b < 2 \<or> n < b then [digit_char n] else digits_of b (n div b) @ [digit_char (n mod b)])"
  by pat_completeness auto
termination
  by (relation "measure (\<lambda>(b, n). n)") auto

declare digits_of.simps [simp del]

definition show_dec :: "int \<Rightarrow> string" where
  "show_dec i = (if i < 0 then ''-'' @ digits_of 10 (nat (- i)) else digits_of 10 (nat i))"

definition show_hex :: "32 word \<Rightarrow> string" where
  "show_hex w = digits_of 16 (unat w)"

subsection \<open>\<^verbatim>\<open>PrintOpenGLErrors\<close> (lines 19 to 26)\<close>

text \<open>
  The loop fetches an error, stops when the fetch returns \<^verbatim>\<open>GL_NO_ERROR\<close>, and
  otherwise writes one line to \<^verbatim>\<open>std::cerr\<close> and goes on. Each fetch that does not
  stop the loop has shortened the queue, so the loop ends.
\<close>

function PrintOpenGLErrors :: "string \<Rightarrow> string \<Rightarrow> int \<Rightarrow> state \<Rightarrow> state" where
  "PrintOpenGLErrors Function File Line s =
    (let (err, s) = glGetError s in
     if err \<noteq> GL_NO_ERROR then
       PrintOpenGLErrors Function File Line
         (cerr (''OpenGL Error in '' @ File @ '' at line '' @ show_dec Line
                @ '' calling '' @ Function @ '': '' @ GlErrorToString err
                @ '' (0x'' @ show_hex err @ '')\<newline>'') s)
     else s)"
  by pat_completeness auto
termination
  by (relation "measure (\<lambda>(Function, File, Line, s). length (errors s))")
     (auto simp: glGetError_def cerr_def split: list.splits)

declare PrintOpenGLErrors.simps [simp del]

subsection \<open>The checked-call macros (lines 28 to 34)\<close>

text \<open>
  A macro takes the wrapped call \<open>x\<close> and, through \<^verbatim>\<open>#x\<close>, its source text; \<open>Line\<close>
  is the \<^verbatim>\<open>__LINE__\<close> of the line that uses the macro. With \<^verbatim>\<open>_DEBUG\<close>,
  \<^verbatim>\<open>CheckedGLCall\<close> is
  \<^verbatim>\<open>do { PrintOpenGLErrors(">>BEFORE<< " #x, ...); (x); PrintOpenGLErrors(#x, ...); } while (0)\<close>
  and \<^verbatim>\<open>CheckedGLResult\<close> is \<^verbatim>\<open>(x); PrintOpenGLErrors(#x, ...)\<close>; without it both are
  \<^verbatim>\<open>(x)\<close>.
\<close>

definition CheckedGLCall ::
  "config \<Rightarrow> int \<Rightarrow> string \<Rightarrow> (state \<Rightarrow> 'a \<times> state) \<Rightarrow> state \<Rightarrow> 'a \<times> state" where
  "CheckedGLCall cfg Line x_text x s =
    (if debug cfg then
       let s = PrintOpenGLErrors (''>>BEFORE<< '' @ x_text) (source_file cfg) Line s;
           (r, s) = x s;
           s = PrintOpenGLErrors x_text (source_file cfg) Line s
       in (r, s)
     else x s)"

definition CheckedGLResult ::
  "config \<Rightarrow> int \<Rightarrow> string \<Rightarrow> (state \<Rightarrow> 'a \<times> state) \<Rightarrow> state \<Rightarrow> 'a \<times> state" where
  "CheckedGLResult cfg Line x_text x s =
    (if debug cfg then
       let (r, s) = x s;
           s = PrintOpenGLErrors x_text (source_file cfg) Line s
       in (r, s)
     else x s)"

subsection \<open>\<^verbatim>\<open>PrintShaderInfoLog\<close> (lines 36 to 46)\<close>

text \<open>
  The parameter is a \<^verbatim>\<open>GLint\<close> and the calls take a \<^verbatim>\<open>GLuint\<close>: the handle is
  converted on the way in and back on the way out. The string \<^verbatim>\<open>log\<close> has \<open>len\<close>
  characters, all NUL before the call, and all of them are written to \<^verbatim>\<open>std::cout\<close>.
\<close>

definition PrintShaderInfoLog :: "env \<Rightarrow> GLint \<Rightarrow> state \<Rightarrow> state" where
  "PrintShaderInfoLog E Shader s =
    (let len = 0;
         (len, s) = glGetShaderiv E (word_of_int Shader) GL_INFO_LOG_LENGTH len s
     in if len > 1 then
          let log = replicate (nat len) (CHR 0x00);
              (log, s) = glGetShaderInfoLog E (word_of_int Shader) len log s
          in cout (''Shader Info Log:\<newline>'' @ log @ ''\<newline>'') s
        else s)"

subsection \<open>\<^verbatim>\<open>main\<close> (lines 48 to 142)\<close>

text \<open>
  \<^verbatim>\<open>main\<close> is read in the blocks the source separates by blank lines. Each block is an
  action on the state; a block that declares variables returns their values. A
  statement that writes to a stream is one event of the trace, logged when the
  statement is complete.
\<close>

text \<open>
  Lines 50 to 71: GLFW, the window, GLEW. The result is \<open>Inl\<close> of the value \<^verbatim>\<open>main\<close>
  returns at once, or \<open>Inr\<close> of the window.
\<close>

definition startup :: "env \<Rightarrow> config \<Rightarrow> state \<Rightarrow> (int + nat) \<times> state" where
  "startup E cfg s =
    (let (ok, s) = glfwInit E s in
     if ok = 0 then (Inl (- 1), s)
     else
       let (_, s) = glfwWindowHint E GLFW_CONTEXT_VERSION_MAJOR 3 s;
           (_, s) = glfwWindowHint E GLFW_CONTEXT_VERSION_MINOR 3 s;
           (_, s) = glfwWindowHint E GLFW_OPENGL_PROFILE GLFW_OPENGL_CORE_PROFILE s;
           (_, s) = (if apple cfg then glfwWindowHint E GLFW_OPENGL_FORWARD_COMPAT GL_TRUE s
                     else ((), s));
           (window, s) = glfwCreateWindow E 640 480 ''Hello World'' s
       in if window = 0 then
            let (_, s) = glfwTerminate E s in (Inl (- 1), s)
          else
            let (_, s) = glfwMakeContextCurrent E window s;
                (_, s) = set_glewExperimental E GL_TRUE s;
                (err, s) = glewInit E s
            in if GLEW_OK \<noteq> err then
                 let (msg, s) = glewGetErrorString E err s;
                     s = cerr (''GLEW init error: '' @ msg @ ''\<newline>'') s;
                     (_, s) = glfwTerminate E s
                 in (Inl (- 1), s)
               else (Inr window, s))"

text \<open>Lines 73 to 86: the constants of \<^verbatim>\<open>main\<close>.\<close>

definition VertexShaderSource :: string where
  "VertexShaderSource =
    ''\<newline>        #version 150\<newline>        in vec2 position;\<newline>''
    @ ''        void main() { gl_Position = vec4(position, 0.0, 1.0); }\<newline>    ''"

definition FragmentShaderSource :: string where
  "FragmentShaderSource =
    ''\<newline>        #version 150\<newline>        out vec4 outColor;\<newline>''
    @ ''        void main() { outColor = vec4(1.0, 1.0, 1.0, 1.0); }\<newline>    ''"

definition Vertices :: "real list" where
  "Vertices = [0.0, 0.5, 0.5, - 0.5, - 0.5, - 0.5]"

definition Elements :: "GLuint list" where
  "Elements = [0, 1, 2]"

text \<open>\<^verbatim>\<open>sizeof\<close> of an array of \<^verbatim>\<open>GLfloat\<close> or \<^verbatim>\<open>GLuint\<close>: four bytes an element.\<close>

definition sizeof_array :: "'a list \<Rightarrow> nat" where
  "sizeof_array xs = 4 * length xs"

text \<open>Lines 88 to 98: the vertex array object and the two buffers.\<close>

definition upload_buffers ::
  "env \<Rightarrow> config \<Rightarrow> state \<Rightarrow> (GLuint \<times> GLuint \<times> GLuint) \<times> state" where
  "upload_buffers E cfg s =
    (let (VAO, s) = CheckedGLCall cfg 88 ''glGenVertexArrays(1, &VAO)''
                      (glGenVertexArrays E 1 Addr_VAO) s;
         (_, s) = CheckedGLCall cfg 89 ''glBindVertexArray(VAO)'' (glBindVertexArray E VAO) s;
         (VBO, s) = CheckedGLCall cfg 91 ''glGenBuffers(1, &VBO)'' (glGenBuffers E 1 Addr_VBO) s;
         (_, s) = CheckedGLCall cfg 92 ''glBindBuffer(GL_ARRAY_BUFFER, VBO)''
                    (glBindBuffer E GL_ARRAY_BUFFER VBO) s;
         (_, s) = CheckedGLCall cfg 93
                    ''glBufferData(GL_ARRAY_BUFFER, sizeof(Vertices), Vertices, GL_STATIC_DRAW)''
                    (glBufferData E GL_ARRAY_BUFFER (sizeof_array Vertices) (Floats Vertices)
                       GL_STATIC_DRAW) s;
         (_, s) = CheckedGLCall cfg 94 ''glBindBuffer(GL_ARRAY_BUFFER, 0)''
                    (glBindBuffer E GL_ARRAY_BUFFER 0) s;
         (EBO, s) = CheckedGLCall cfg 96 ''glGenBuffers(1, &EBO)'' (glGenBuffers E 1 Addr_EBO) s;
         (_, s) = CheckedGLCall cfg 97 ''glBindBuffer(GL_ELEMENT_ARRAY_BUFFER, EBO)''
                    (glBindBuffer E GL_ELEMENT_ARRAY_BUFFER EBO) s;
         (_, s) = CheckedGLCall cfg 98
                    ''glBufferData(GL_ELEMENT_ARRAY_BUFFER, sizeof(Elements), Elements, GL_STATIC_DRAW)''
                    (glBufferData E GL_ELEMENT_ARRAY_BUFFER (sizeof_array Elements)
                       (UInts Elements) GL_STATIC_DRAW) s
     in ((VAO, VBO, EBO), s))"

text \<open>
  Lines 100 to 105: the vertex shader. The block returns the handle and the value of
  \<^verbatim>\<open>compiled\<close>, which line 100 sets to \<open>0\<close>.
\<close>

definition vertex_shader :: "env \<Rightarrow> config \<Rightarrow> state \<Rightarrow> (GLuint \<times> GLint) \<times> state" where
  "vertex_shader E cfg s =
    (let compiled = 0;
         (vs, s) = CheckedGLResult cfg 101 ''glCreateShader(GL_VERTEX_SHADER)''
                     (glCreateShader E GL_VERTEX_SHADER) s;
         (_, s) = CheckedGLCall cfg 102 ''glShaderSource(vs, 1, &VertexShaderSource, nullptr)''
                    (glShaderSource E vs 1 [VertexShaderSource]) s;
         (_, s) = CheckedGLCall cfg 103 ''glCompileShader(vs)'' (glCompileShader E vs) s;
         (compiled, s) = CheckedGLCall cfg 104 ''glGetShaderiv(vs, GL_COMPILE_STATUS, &compiled)''
                           (glGetShaderiv E vs GL_COMPILE_STATUS compiled) s;
         s = (if compiled = 0
              then PrintShaderInfoLog E (sint vs) (cerr ''Vertex shader failed\<newline>'' s)
              else s)
     in ((vs, compiled), s))"

text \<open>
  Lines 107 to 111: the fragment shader. \<^verbatim>\<open>compiled\<close> is the variable of the block
  before, with the value that block left in it.
\<close>

definition fragment_shader ::
  "env \<Rightarrow> config \<Rightarrow> GLint \<Rightarrow> state \<Rightarrow> (GLuint \<times> GLint) \<times> state" where
  "fragment_shader E cfg compiled s =
    (let (fs, s) = CheckedGLResult cfg 107 ''glCreateShader(GL_FRAGMENT_SHADER)''
                     (glCreateShader E GL_FRAGMENT_SHADER) s;
         (_, s) = CheckedGLCall cfg 108 ''glShaderSource(fs, 1, &FragmentShaderSource, nullptr)''
                    (glShaderSource E fs 1 [FragmentShaderSource]) s;
         (_, s) = CheckedGLCall cfg 109 ''glCompileShader(fs)'' (glCompileShader E fs) s;
         (compiled, s) = CheckedGLCall cfg 110 ''glGetShaderiv(fs, GL_COMPILE_STATUS, &compiled)''
                           (glGetShaderiv E fs GL_COMPILE_STATUS compiled) s;
         s = (if compiled = 0
              then PrintShaderInfoLog E (sint fs) (cerr ''Fragment shader failed\<newline>'' s)
              else s)
     in ((fs, compiled), s))"

text \<open>Lines 113 to 118: the program.\<close>

definition link_program :: "env \<Rightarrow> config \<Rightarrow> GLuint \<Rightarrow> GLuint \<Rightarrow> state \<Rightarrow> GLuint \<times> state" where
  \<open>link_program E cfg vs fs s =
    (let (prog, s) = CheckedGLResult cfg 113 ''glCreateProgram()'' (glCreateProgram E) s;
         (_, s) = CheckedGLCall cfg 114 ''glAttachShader(prog, vs)'' (glAttachShader E prog vs) s;
         (_, s) = CheckedGLCall cfg 115 ''glAttachShader(prog, fs)'' (glAttachShader E prog fs) s;
         (_, s) = CheckedGLCall cfg 116 ''glBindFragDataLocation(prog, 0, "outColor")''
                    (glBindFragDataLocation E prog 0 ''outColor'') s;
         (_, s) = CheckedGLCall cfg 117 ''glLinkProgram(prog)'' (glLinkProgram E prog) s;
         (_, s) = CheckedGLCall cfg 118 ''glUseProgram(prog)'' (glUseProgram E prog) s
     in (prog, s))\<close>

text \<open>
  Lines 120 to 124: the layout of the vertex attribute. \<^verbatim>\<open>posLoc\<close> is a \<^verbatim>\<open>GLint\<close> and
  is converted to the \<^verbatim>\<open>GLuint\<close> the two calls take.
\<close>

definition vertex_layout :: "env \<Rightarrow> config \<Rightarrow> GLuint \<Rightarrow> GLuint \<Rightarrow> state \<Rightarrow> state" where
  \<open>vertex_layout E cfg prog VBO s =
    (let (posLoc, s) = CheckedGLResult cfg 120 ''glGetAttribLocation(prog, "position")''
                         (glGetAttribLocation E prog ''position'') s;
         (_, s) = CheckedGLCall cfg 121 ''glEnableVertexAttribArray(posLoc)''
                    (glEnableVertexAttribArray E (word_of_int posLoc)) s;
         (_, s) = CheckedGLCall cfg 122 ''glBindBuffer(GL_ARRAY_BUFFER, VBO)''
                    (glBindBuffer E GL_ARRAY_BUFFER VBO) s;
         (_, s) = CheckedGLCall cfg 123
                    ''glVertexAttribPointer(posLoc, 2, GL_FLOAT, GL_FALSE, 0, (void*)0)''
                    (glVertexAttribPointer E (word_of_int posLoc) 2 GL_FLOAT GL_FALSE 0 0) s;
         (_, s) = CheckedGLCall cfg 124 ''glBindBuffer(GL_ARRAY_BUFFER, 0)''
                    (glBindBuffer E GL_ARRAY_BUFFER 0) s
     in s)\<close>

text \<open>Lines 127 to 130: the body of the render loop.\<close>

definition frame :: "env \<Rightarrow> config \<Rightarrow> nat \<Rightarrow> state \<Rightarrow> state" where
  "frame E cfg window s =
    (let (_, s) = CheckedGLCall cfg 127 ''glClear(GL_COLOR_BUFFER_BIT)''
                    (glClear E GL_COLOR_BUFFER_BIT) s;
         (_, s) = CheckedGLCall cfg 128 ''glDrawElements(GL_TRIANGLES, 3, GL_UNSIGNED_INT, 0)''
                    (glDrawElements E GL_TRIANGLES 3 GL_UNSIGNED_INT 0) s;
         (_, s) = glfwSwapBuffers E window s;
         (_, s) = glfwPollEvents E s
     in s)"

text \<open>
  Lines 126 to 131: the render loop. Nothing bounds the number of iterations: the loop
  returns \<open>None\<close> when the window never reports a close request.
\<close>

partial_function (option) render_loop :: "env \<Rightarrow> config \<Rightarrow> nat \<Rightarrow> state \<Rightarrow> state option" where
  "render_loop E cfg window s =
    (case glfwWindowShouldClose E window s of
       (close, s) \<Rightarrow> if close = 0 then render_loop E cfg window (frame E cfg window s) else Some s)"

declare render_loop.simps [code]

text \<open>Lines 133 to 140: the objects are deleted and GLFW is terminated.\<close>

definition teardown ::
  "env \<Rightarrow> config \<Rightarrow> GLuint \<Rightarrow> GLuint \<Rightarrow> GLuint \<Rightarrow> GLuint \<Rightarrow> GLuint \<Rightarrow> GLuint \<Rightarrow> state \<Rightarrow> state" where
  "teardown E cfg prog fs vs EBO VBO VAO s =
    (let (_, s) = CheckedGLCall cfg 133 ''glDeleteProgram(prog)'' (glDeleteProgram E prog) s;
         (_, s) = CheckedGLCall cfg 134 ''glDeleteShader(fs)'' (glDeleteShader E fs) s;
         (_, s) = CheckedGLCall cfg 135 ''glDeleteShader(vs)'' (glDeleteShader E vs) s;
         (_, s) = CheckedGLCall cfg 136 ''glDeleteBuffers(1, &EBO)'' (glDeleteBuffers E 1 [EBO]) s;
         (_, s) = CheckedGLCall cfg 137 ''glDeleteBuffers(1, &VBO)'' (glDeleteBuffers E 1 [VBO]) s;
         (_, s) = CheckedGLCall cfg 138 ''glDeleteVertexArrays(1, &VAO)''
                    (glDeleteVertexArrays E 1 [VAO]) s;
         (_, s) = glfwTerminate E s
     in s)"

text \<open>
  Lines 88 to 124 together: the objects the render loop draws with. The result is the
  handles that the teardown uses.
\<close>

definition build_resources ::
  "env \<Rightarrow> config \<Rightarrow> state
    \<Rightarrow> (GLuint \<times> GLuint \<times> GLuint \<times> GLuint \<times> GLuint \<times> GLuint) \<times> state" where
  "build_resources E cfg s =
    (let ((VAO, VBO, EBO), s) = upload_buffers E cfg s;
         ((vs, compiled), s) = vertex_shader E cfg s;
         ((fs, compiled), s) = fragment_shader E cfg compiled s;
         (prog, s) = link_program E cfg vs fs s;
         s = vertex_layout E cfg prog VBO s
     in ((VAO, VBO, EBO, vs, fs, prog), s))"

text \<open>
  \<^verbatim>\<open>main\<close>, from an empty trace and an empty error queue. The result is the value
  \<^verbatim>\<open>main\<close> returns and the final state, or \<open>None\<close> when the render loop never ends.
\<close>

definition main :: "env \<Rightarrow> config \<Rightarrow> (int \<times> state) option" where
  "main E cfg =
    (case startup E cfg \<lparr>errors = [], trace = []\<rparr> of
       (Inl code, s) \<Rightarrow> Some (code, s)
     | (Inr window, s) \<Rightarrow>
         let ((VAO, VBO, EBO, vs, fs, prog), s) = build_resources E cfg s
         in case render_loop E cfg window s of
              None \<Rightarrow> None
            | Some s \<Rightarrow> Some (0, teardown E cfg prog fs vs EBO VBO VAO s))"

section \<open>Observations\<close>

text \<open>
  The definitions of this section do not model code: they name what the properties
  below speak about.
\<close>

subsection \<open>Projections of a trace\<close>

text \<open>The library calls of a trace, in order, without the fetches of the error queue.\<close>

fun api_calls :: "event list \<Rightarrow> api_call list" where
  "api_calls [] = []"
| "api_calls (Call c # es) = c # api_calls es"
| "api_calls (e # es) = api_calls es"

text \<open>What the statements of a trace wrote to \<^verbatim>\<open>std::cerr\<close> and to \<^verbatim>\<open>std::cout\<close>.\<close>

fun stderr_of :: "event list \<Rightarrow> string list" where
  "stderr_of [] = []"
| "stderr_of (Stderr t # es) = t # stderr_of es"
| "stderr_of (e # es) = stderr_of es"

fun stdout_of :: "event list \<Rightarrow> string list" where
  "stdout_of [] = []"
| "stdout_of (Stdout t # es) = t # stdout_of es"
| "stdout_of (e # es) = stdout_of es"

text \<open>
  The lines of \<^verbatim>\<open>PrintOpenGLErrors\<close> begin with \<open>OpenGL Error in\<close>; the messages of a
  trace are what was written to \<^verbatim>\<open>std::cerr\<close> apart from such lines.
\<close>

definition is_gl_error_line :: "string \<Rightarrow> bool" where
  "is_gl_error_line t = (take 16 t = ''OpenGL Error in '')"

definition messages :: "event list \<Rightarrow> string list" where
  "messages tr = filter (\<lambda>t. \<not> is_gl_error_line t) (stderr_of tr)"

subsection \<open>Draining the error queue\<close>

text \<open>
  The line the specification gives for one error:
  \<^verbatim>\<open>OpenGL Error in <file> at line <line> calling <label>: <NAME> (0x<hex>)\<close> and a
  newline.
\<close>

definition spec_error_line :: "string \<Rightarrow> string \<Rightarrow> string \<Rightarrow> string \<Rightarrow> string \<Rightarrow> string" where
  "spec_error_line file line label name hex =
    ''OpenGL Error in '' @ file @ '' at line '' @ line @ '' calling '' @ label @ '': ''
    @ name @ '' (0x'' @ hex @ '')\<newline>''"

text \<open>
  A drain fetches the recorded errors up to the first \<^verbatim>\<open>GL_NO_ERROR\<close>; that entry, when
  there is one, is fetched too and ends the drain, and what stands behind it is left in
  the queue. A driver records no \<^verbatim>\<open>GL_NO_ERROR\<close>, and then the whole queue is fetched.
\<close>

definition fetched :: "GLenum list \<Rightarrow> GLenum list" where
  "fetched q = takeWhile (\<lambda>e. e \<noteq> GL_NO_ERROR) q"

definition left_over :: "GLenum list \<Rightarrow> GLenum list" where
  "left_over q = drop 1 (dropWhile (\<lambda>e. e \<noteq> GL_NO_ERROR) q)"

text \<open>The events of one drain of the queue \<open>q\<close>: a fetch and a line for each error, and the
  fetch that returns \<^verbatim>\<open>GL_NO_ERROR\<close>.\<close>

definition drain_events :: "string \<Rightarrow> string \<Rightarrow> int \<Rightarrow> GLenum list \<Rightarrow> event list" where
  "drain_events Function File Line q =
    concat (map (\<lambda>err. [GetError err,
                         Stderr (spec_error_line File (show_dec Line) Function
                                   (GlErrorToString err) (show_hex err))]) (fetched q))
    @ [GetError GL_NO_ERROR]"

text \<open>
  The state after a checked library call \<open>c\<close>: \<open>before\<close> tells whether the macro
  drains the queue before the call (\<^verbatim>\<open>CheckedGLCall\<close>) or not (\<^verbatim>\<open>CheckedGLResult\<close>).
\<close>

definition after_call :: "config \<Rightarrow> bool \<Rightarrow> int \<Rightarrow> string \<Rightarrow> env \<Rightarrow> api_call \<Rightarrow> state \<Rightarrow> state" where
  "after_call cfg before Line x_text E c s =
    (if debug cfg then
       PrintOpenGLErrors x_text (source_file cfg) Line
         (ext E c (if before
                   then PrintOpenGLErrors (''>>BEFORE<< '' @ x_text) (source_file cfg) Line s
                   else s))
     else ext E c s)"

text \<open>
  The claim that a macro drains the queue immediately before and immediately after the
  wrapped call \<open>c\<close>, read on the events the macro adds: what precedes the call ends with a
  fetch that found the queue empty, and so does what follows it.
\<close>

definition ends_with_empty_fetch :: "event list \<Rightarrow> bool" where
  "ends_with_empty_fetch evs = (evs \<noteq> [] \<and> last evs = GetError GL_NO_ERROR)"

definition drained_before_and_after :: "api_call \<Rightarrow> event list \<Rightarrow> bool" where
  "drained_before_and_after c evs =
    (ends_with_empty_fetch (takeWhile (\<lambda>e. e \<noteq> Call c) evs)
     \<and> ends_with_empty_fetch (drop 1 (dropWhile (\<lambda>e. e \<noteq> Call c) evs)))"

text \<open>Reading a numeral back: the value of a string of digits in base \<open>b\<close>.\<close>

definition digit_value :: "char \<Rightarrow> nat" where
  "digit_value c = length (takeWhile (\<lambda>d. d \<noteq> c) ''0123456789abcdef'')"

definition read_digits :: "nat \<Rightarrow> string \<Rightarrow> nat" where
  "read_digits b cs = foldl (\<lambda>a c. a * b + digit_value c) 0 cs"

subsection \<open>The blocks of \<^verbatim>\<open>main\<close>\<close>

text \<open>The window hints of lines 53 to 58.\<close>

definition window_hints :: "config \<Rightarrow> api_call list" where
  "window_hints cfg =
    [GlfwWindowHint GLFW_CONTEXT_VERSION_MAJOR 3, GlfwWindowHint GLFW_CONTEXT_VERSION_MINOR 3,
     GlfwWindowHint GLFW_OPENGL_PROFILE GLFW_OPENGL_CORE_PROFILE]
    @ (if apple cfg then [GlfwWindowHint GLFW_OPENGL_FORWARD_COMPAT GL_TRUE] else [])"

text \<open>The state in which a run that passed line 71 enters the render loop.\<close>

definition loop_entry :: "env \<Rightarrow> config \<Rightarrow> state" where
  "loop_entry E cfg = snd (build_resources E cfg (snd (startup E cfg \<lparr>errors = [], trace = []\<rparr>)))"

text \<open>
  The value of \<^verbatim>\<open>compiled\<close> after the query of the compile status of a shader, given
  its value before; the length the driver reports for the info log of a shader, \<open>0\<close> when
  the query fails; and the \<open>len\<close> characters of the string \<^verbatim>\<open>log\<close> after
  \<^verbatim>\<open>glGetShaderInfoLog\<close>: the log cut to \<open>len - 1\<close> characters, then NUL up to the end.
\<close>

definition compile_status :: "env \<Rightarrow> GLuint \<Rightarrow> GLint \<Rightarrow> GLint" where
  "compile_status E sh before =
    (case shader_parameter E sh GL_COMPILE_STATUS of None \<Rightarrow> before | Some v \<Rightarrow> v)"

definition log_length :: "env \<Rightarrow> GLuint \<Rightarrow> GLint" where
  "log_length E sh = (case shader_parameter E sh GL_INFO_LOG_LENGTH of None \<Rightarrow> 0 | Some l \<Rightarrow> l)"

definition log_buffer :: "env \<Rightarrow> GLuint \<Rightarrow> GLint \<Rightarrow> string" where
  "log_buffer E sh len =
    (let shown = take (nat (len - 1)) (shader_info_log E sh)
     in shown @ replicate (nat len - length shown) (CHR 0x00))"

text \<open>The library calls of \<^verbatim>\<open>PrintShaderInfoLog\<close> on a shader, and what it writes.\<close>

definition info_log_calls :: "env \<Rightarrow> GLuint \<Rightarrow> api_call list" where
  "info_log_calls E sh =
    GlGetShaderiv sh GL_INFO_LOG_LENGTH
    # (if 1 < log_length E sh then [GlGetShaderInfoLog sh (log_length E sh)] else [])"

definition info_log_output :: "env \<Rightarrow> GLuint \<Rightarrow> string list" where
  "info_log_output E sh =
    (if 1 < log_length E sh
     then [''Shader Info Log:\<newline>'' @ log_buffer E sh (log_length E sh) @ ''\<newline>'']
     else [])"

text \<open>
  A run has started when GLFW, the window and GLEW are there, that is, when \<^verbatim>\<open>main\<close>
  passes line 71.
\<close>

definition started :: "env \<Rightarrow> bool" where
  "started E = (glfwInit_result E \<noteq> 0 \<and> glfwCreateWindow_result E \<noteq> 0
                \<and> glewInit_result E = GLEW_OK)"

text \<open>
  The library calls of a run, block by block: lines 50 to 66 of a run that has started,
  lines 88 to 124, lines 127 to 130, and lines 133 to 140.
\<close>

definition startup_calls :: "env \<Rightarrow> config \<Rightarrow> api_call list" where
  "startup_calls E cfg =
    [GlfwInit] @ window_hints cfg
    @ [GlfwCreateWindow 640 480 ''Hello World'',
       GlfwMakeContextCurrent (glfwCreateWindow_result E),
       Set_glewExperimental GL_TRUE, GlewInit]"

definition build_calls :: "env \<Rightarrow> api_call list" where
  "build_calls E =
    (let VAO = generated E Addr_VAO; VBO = generated E Addr_VBO; EBO = generated E Addr_EBO;
         vs = glCreateShader_result E GL_VERTEX_SHADER;
         fs = glCreateShader_result E GL_FRAGMENT_SHADER;
         prog = glCreateProgram_result E;
         posLoc = glGetAttribLocation_result E prog ''position''
     in [GlGenVertexArrays 1 Addr_VAO, GlBindVertexArray VAO,
         GlGenBuffers 1 Addr_VBO, GlBindBuffer GL_ARRAY_BUFFER VBO,
         GlBufferData GL_ARRAY_BUFFER 24 (Floats [0, 1/2, 1/2, - (1/2), - (1/2), - (1/2)])
           GL_STATIC_DRAW,
         GlBindBuffer GL_ARRAY_BUFFER 0,
         GlGenBuffers 1 Addr_EBO, GlBindBuffer GL_ELEMENT_ARRAY_BUFFER EBO,
         GlBufferData GL_ELEMENT_ARRAY_BUFFER 12 (UInts [0, 1, 2]) GL_STATIC_DRAW]
        @ [GlCreateShader GL_VERTEX_SHADER, GlShaderSource vs 1 [VertexShaderSource],
           GlCompileShader vs, GlGetShaderiv vs GL_COMPILE_STATUS]
        @ (if compile_status E vs 0 = 0 then info_log_calls E vs else [])
        @ [GlCreateShader GL_FRAGMENT_SHADER, GlShaderSource fs 1 [FragmentShaderSource],
           GlCompileShader fs, GlGetShaderiv fs GL_COMPILE_STATUS]
        @ (if compile_status E fs (compile_status E vs 0) = 0 then info_log_calls E fs else [])
        @ [GlCreateProgram, GlAttachShader prog vs, GlAttachShader prog fs,
           GlBindFragDataLocation prog 0 ''outColor'', GlLinkProgram prog, GlUseProgram prog]
        @ [GlGetAttribLocation prog ''position'', GlEnableVertexAttribArray (word_of_int posLoc),
           GlBindBuffer GL_ARRAY_BUFFER VBO,
           GlVertexAttribPointer (word_of_int posLoc) 2 GL_FLOAT GL_FALSE 0 0,
           GlBindBuffer GL_ARRAY_BUFFER 0])"

definition frame_calls_of :: "nat \<Rightarrow> api_call list" where
  "frame_calls_of window =
    [GlClear GL_COLOR_BUFFER_BIT, GlDrawElements GL_TRIANGLES 3 GL_UNSIGNED_INT 0,
     GlfwSwapBuffers window, GlfwPollEvents]"

definition teardown_calls_of :: "env \<Rightarrow> api_call list" where
  "teardown_calls_of E =
    [GlDeleteProgram (glCreateProgram_result E),
     GlDeleteShader (glCreateShader_result E GL_FRAGMENT_SHADER),
     GlDeleteShader (glCreateShader_result E GL_VERTEX_SHADER),
     GlDeleteBuffers 1 [generated E Addr_EBO],
     GlDeleteBuffers 1 [generated E Addr_VBO],
     GlDeleteVertexArrays 1 [generated E Addr_VAO],
     GlfwTerminate]"

text \<open>The calls that upload data to a buffer.\<close>

fun is_upload :: "api_call \<Rightarrow> bool" where
  "is_upload (GlBufferData target sz d usage) = True"
| "is_upload c = False"

text \<open>
  The events of a trace that are not part of a drain of the error queue, in order: the
  library calls, what was written to \<^verbatim>\<open>std::cout\<close>, and the messages written to
  \<^verbatim>\<open>std::cerr\<close>. A build with \<^verbatim>\<open>_DEBUG\<close> and one without it differ in the drains only.
\<close>

fun visible :: "event list \<Rightarrow> event list" where
  "visible [] = []"
| "visible (GetError e # es) = visible es"
| "visible (Stderr t # es) = (if is_gl_error_line t then visible es else Stderr t # visible es)"
| "visible (e # es) = e # visible es"

text \<open>
  What follows a compile status of \<open>0\<close>, in order: the message, the query of the length
  of the info log and, when the length is greater than \<open>1\<close>, the fetch of the log and
  the log under its heading.
\<close>

definition shader_report :: "env \<Rightarrow> GLuint \<Rightarrow> string \<Rightarrow> event list" where
  "shader_report E sh msg =
    [Stderr msg, Call (GlGetShaderiv sh GL_INFO_LOG_LENGTH)]
    @ (if 1 < log_length E sh
       then [Call (GlGetShaderInfoLog sh (log_length E sh)),
             Stdout (''Shader Info Log:\<newline>'' @ log_buffer E sh (log_length E sh) @ ''\<newline>'')]
       else [])"

text \<open>The events of lines 88 to 124 that are not part of a drain, in order.\<close>

definition build_events :: "env \<Rightarrow> event list" where
  "build_events E =
    (let VAO = generated E Addr_VAO; VBO = generated E Addr_VBO; EBO = generated E Addr_EBO;
         vs = glCreateShader_result E GL_VERTEX_SHADER;
         fs = glCreateShader_result E GL_FRAGMENT_SHADER;
         prog = glCreateProgram_result E;
         posLoc = glGetAttribLocation_result E prog ''position''
     in map Call
          [GlGenVertexArrays 1 Addr_VAO, GlBindVertexArray VAO,
           GlGenBuffers 1 Addr_VBO, GlBindBuffer GL_ARRAY_BUFFER VBO,
           GlBufferData GL_ARRAY_BUFFER 24 (Floats [0, 1/2, 1/2, - (1/2), - (1/2), - (1/2)])
             GL_STATIC_DRAW,
           GlBindBuffer GL_ARRAY_BUFFER 0,
           GlGenBuffers 1 Addr_EBO, GlBindBuffer GL_ELEMENT_ARRAY_BUFFER EBO,
           GlBufferData GL_ELEMENT_ARRAY_BUFFER 12 (UInts [0, 1, 2]) GL_STATIC_DRAW,
           GlCreateShader GL_VERTEX_SHADER, GlShaderSource vs 1 [VertexShaderSource],
           GlCompileShader vs, GlGetShaderiv vs GL_COMPILE_STATUS]
        @ (if compile_status E vs 0 = 0
           then shader_report E vs ''Vertex shader failed\<newline>'' else [])
        @ map Call
            [GlCreateShader GL_FRAGMENT_SHADER, GlShaderSource fs 1 [FragmentShaderSource],
             GlCompileShader fs, GlGetShaderiv fs GL_COMPILE_STATUS]
        @ (if compile_status E fs (compile_status E vs 0) = 0
           then shader_report E fs ''Fragment shader failed\<newline>'' else [])
        @ map Call
            [GlCreateProgram, GlAttachShader prog vs, GlAttachShader prog fs,
             GlBindFragDataLocation prog 0 ''outColor'', GlLinkProgram prog, GlUseProgram prog,
             GlGetAttribLocation prog ''position'',
             GlEnableVertexAttribArray (word_of_int posLoc),
             GlBindBuffer GL_ARRAY_BUFFER VBO,
             GlVertexAttribPointer (word_of_int posLoc) 2 GL_FLOAT GL_FALSE 0 0,
             GlBindBuffer GL_ARRAY_BUFFER 0])"

subsection \<open>The iterations of the render loop\<close>

text \<open>
  What the window reports when it is asked in state \<open>s\<close>, and the state at the head of
  the loop after \<open>k\<close> further iterations.
\<close>

definition close_requested :: "env \<Rightarrow> nat \<Rightarrow> state \<Rightarrow> bool" where
  "close_requested E window s = (fst (glfwWindowShouldClose E window s) \<noteq> 0)"

fun run_frames :: "env \<Rightarrow> config \<Rightarrow> nat \<Rightarrow> nat \<Rightarrow> state \<Rightarrow> state" where
  "run_frames E cfg window 0 s = s"
| "run_frames E cfg window (Suc k) s =
     run_frames E cfg window k (frame E cfg window (snd (glfwWindowShouldClose E window s)))"

subsection \<open>Builds and environments to run the program in\<close>

definition release_build :: config where
  "release_build = \<lparr>debug = False, apple = False, source_file = ''main.cpp''\<rparr>"

definition debug_build :: config where
  "debug_build = \<lparr>debug = True, apple = False, source_file = ''main.cpp''\<rparr>"

text \<open>
  An environment in which every call succeeds and records no error, both shaders
  compile, and the window asks to be closed once events have been polled.
\<close>

definition quiet_env :: env where
  "quiet_env =
    \<lparr>glfwInit_result = 1,
     glfwCreateWindow_result = 1,
     glewInit_result = GLEW_OK,
     glewGetErrorString_result = (\<lambda>e. ''Missing GL version''),
     glfwWindowShouldClose_result = (\<lambda>tr. if GlfwPollEvents \<in> set (api_calls tr) then 1 else 0),
     raised = (\<lambda>tr. []),
     generated = (\<lambda>v. case v of Addr_VAO \<Rightarrow> 1 | Addr_VBO \<Rightarrow> 1 | Addr_EBO \<Rightarrow> 2),
     glCreateShader_result = (\<lambda>ty. if ty = GL_VERTEX_SHADER then 1 else 2),
     glCreateProgram_result = 3,
     glGetAttribLocation_result = (\<lambda>p name. 0),
     shader_parameter = (\<lambda>sh pname. if pname = GL_COMPILE_STATUS then Some 1 else Some 0),
     shader_info_log = (\<lambda>sh. [])\<rparr>"

text \<open>
  The same environment, but no shader compiles and each has the info log \<open>error: x\<close>,
  for which the driver reports the length \<open>6\<close>.
\<close>

definition failing_shaders_env :: env where
  "failing_shaders_env =
    quiet_env\<lparr>shader_parameter := (\<lambda>sh pname. if pname = GL_COMPILE_STATUS then Some 0 else Some 6),
              shader_info_log := (\<lambda>sh. ''error: x'')\<rparr>"

section \<open>Properties\<close>

subsection \<open>Auxiliary facts\<close>

lemmas gl_error_codes =
  GL_NO_ERROR_def GL_INVALID_ENUM_def GL_INVALID_VALUE_def GL_INVALID_OPERATION_def
  GL_OUT_OF_MEMORY_def GL_INVALID_FRAMEBUFFER_OPERATION_def

lemma api_calls_append [simp]: "api_calls (xs @ ys) = api_calls xs @ api_calls ys"
  by (induction xs rule: api_calls.induct) simp_all

lemma stderr_of_append [simp]: "stderr_of (xs @ ys) = stderr_of xs @ stderr_of ys"
  by (induction xs rule: stderr_of.induct) simp_all

lemma stdout_of_append [simp]: "stdout_of (xs @ ys) = stdout_of xs @ stdout_of ys"
  by (induction xs rule: stdout_of.induct) simp_all

lemma messages_append [simp]: "messages (xs @ ys) = messages xs @ messages ys"
  by (simp add: messages_def)

lemma PrintOpenGLErrors_queue:
  "PrintOpenGLErrors Function File Line \<lparr>errors = q, trace = tr\<rparr>
   = \<lparr>errors = left_over q, trace = tr @ drain_events Function File Line q\<rparr>"
proof (induction q arbitrary: tr)
  case Nil
  show ?case
    by (subst PrintOpenGLErrors.simps)
       (simp add: glGetError_def left_over_def drain_events_def fetched_def)
next
  case (Cons e q)
  show ?case
  proof (cases "e = GL_NO_ERROR")
    case True
    then show ?thesis
      by (subst PrintOpenGLErrors.simps)
         (simp add: glGetError_def left_over_def drain_events_def fetched_def)
  next
    case False
    then show ?thesis
      by (subst PrintOpenGLErrors.simps)
         (simp add: glGetError_def cerr_def Cons.IH left_over_def drain_events_def fetched_def
            spec_error_line_def)
  qed
qed

lemma PrintOpenGLErrors_eq:
  "PrintOpenGLErrors Function File Line s
   = \<lparr>errors = left_over (errors s), trace = trace s @ drain_events Function File Line (errors s)\<rparr>"
  by (cases s) (simp add: PrintOpenGLErrors_queue)

lemma CheckedGLCall_call:
  "CheckedGLCall cfg Line x_text (call E c r) s = (r, after_call cfg True Line x_text E c s)"
  by (simp add: CheckedGLCall_def call_def after_call_def)

lemma CheckedGLResult_call:
  "CheckedGLResult cfg Line x_text (call E c r) s = (r, after_call cfg False Line x_text E c s)"
  by (simp add: CheckedGLResult_def call_def after_call_def)

lemma trace_ext [simp]: "trace (ext E c s) = trace s @ [Call c]"
  by (simp add: ext_def Let_def)

lemma errors_ext: "errors (ext E c s) = errors s @ raised E (trace s @ [Call c])"
  by (simp add: ext_def Let_def)

lemma api_calls_fetch_report:
  "api_calls (concat (map (\<lambda>err. [GetError err, Stderr (f err)]) xs)) = []"
  by (induction xs) simp_all

lemma stdout_of_fetch_report:
  "stdout_of (concat (map (\<lambda>err. [GetError err, Stderr (f err)]) xs)) = []"
  by (induction xs) simp_all

lemma stderr_of_fetch_report:
  "stderr_of (concat (map (\<lambda>err. [GetError err, Stderr (f err)]) xs)) = map f xs"
  by (induction xs) simp_all

lemma api_calls_drain [simp]: "api_calls (drain_events Function File Line q) = []"
  by (simp add: drain_events_def api_calls_fetch_report)

lemma stdout_of_drain [simp]: "stdout_of (drain_events Function File Line q) = []"
  by (simp add: drain_events_def stdout_of_fetch_report)

lemma stderr_of_drain:
  "stderr_of (drain_events Function File Line q)
   = map (\<lambda>err. spec_error_line File (show_dec Line) Function (GlErrorToString err)
                   (show_hex err)) (fetched q)"
  by (simp add: drain_events_def stderr_of_fetch_report)

lemma is_gl_error_line_spec [simp]: "is_gl_error_line (spec_error_line f l x n h)"
  by (simp add: is_gl_error_line_def spec_error_line_def)

lemma messages_simps [simp]:
  "messages [] = []"
  "messages (Call c # es) = messages es"
  "messages (GetError e # es) = messages es"
  "messages (Stdout t # es) = messages es"
  "messages (Stderr t # es) = (if is_gl_error_line t then messages es else t # messages es)"
  by (simp_all add: messages_def)

lemma messages_drain [simp]: "messages (drain_events Function File Line q) = []"
  by (simp add: messages_def stderr_of_drain filter_empty_conv)

lemma api_calls_after_call [simp]:
  "api_calls (trace (after_call cfg before Line x_text E c s)) = api_calls (trace s) @ [c]"
  by (simp add: after_call_def PrintOpenGLErrors_eq)

lemma stdout_of_after_call [simp]:
  "stdout_of (trace (after_call cfg before Line x_text E c s)) = stdout_of (trace s)"
  by (simp add: after_call_def PrintOpenGLErrors_eq)

lemma messages_after_call [simp]:
  "messages (trace (after_call cfg before Line x_text E c s)) = messages (trace s)"
  by (simp add: after_call_def PrintOpenGLErrors_eq)

lemmas gl_calls =
  glGenVertexArrays_def glBindVertexArray_def glGenBuffers_def glBindBuffer_def
  glBufferData_def glCreateShader_def glShaderSource_def glCompileShader_def
  glGetShaderiv_def glGetShaderInfoLog_def glCreateProgram_def glAttachShader_def
  glBindFragDataLocation_def glLinkProgram_def glUseProgram_def glGetAttribLocation_def
  glEnableVertexAttribArray_def glVertexAttribPointer_def glClear_def glDrawElements_def
  glDeleteProgram_def glDeleteShader_def glDeleteBuffers_def glDeleteVertexArrays_def

lemmas glfw_calls =
  glfwInit_def glfwWindowHint_def glfwCreateWindow_def glfwTerminate_def
  glfwMakeContextCurrent_def set_glewExperimental_def glewInit_def glewGetErrorString_def
  glfwSwapBuffers_def glfwPollEvents_def

lemmas checked = CheckedGLCall_call CheckedGLResult_call

lemma fst_upload_buffers:
  "fst (upload_buffers E cfg s) = (generated E Addr_VAO, generated E Addr_VBO, generated E Addr_EBO)"
  by (simp add: upload_buffers_def gl_calls checked)

lemma api_calls_upload_buffers:
  "api_calls (trace (snd (upload_buffers E cfg s)))
   = api_calls (trace s)
     @ [GlGenVertexArrays 1 Addr_VAO,
        GlBindVertexArray (generated E Addr_VAO),
        GlGenBuffers 1 Addr_VBO,
        GlBindBuffer GL_ARRAY_BUFFER (generated E Addr_VBO),
        GlBufferData GL_ARRAY_BUFFER 24 (Floats [0, 1/2, 1/2, - (1/2), - (1/2), - (1/2)])
          GL_STATIC_DRAW,
        GlBindBuffer GL_ARRAY_BUFFER 0,
        GlGenBuffers 1 Addr_EBO,
        GlBindBuffer GL_ELEMENT_ARRAY_BUFFER (generated E Addr_EBO),
        GlBufferData GL_ELEMENT_ARRAY_BUFFER 12 (UInts [0, 1, 2]) GL_STATIC_DRAW]"
  by (simp add: upload_buffers_def gl_calls checked sizeof_array_def Vertices_def Elements_def)

lemma teardown_calls:
  "api_calls (trace (teardown E cfg prog fs vs EBO VBO VAO s))
   = api_calls (trace s)
     @ [GlDeleteProgram prog, GlDeleteShader fs, GlDeleteShader vs, GlDeleteBuffers 1 [EBO],
        GlDeleteBuffers 1 [VBO], GlDeleteVertexArrays 1 [VAO], GlfwTerminate]"
  by (simp add: teardown_def gl_calls glfw_calls checked call_def)

lemma frame_calls:
  "api_calls (trace (frame E cfg window s))
   = api_calls (trace s)
     @ [GlClear GL_COLOR_BUFFER_BIT, GlDrawElements GL_TRIANGLES 3 GL_UNSIGNED_INT 0,
        GlfwSwapBuffers window, GlfwPollEvents]"
  by (simp add: frame_def gl_calls glfw_calls checked call_def)

lemma fst_startup:
  "fst (startup E cfg s) =
    (if glfwInit_result E = 0 \<or> glfwCreateWindow_result E = 0 \<or> glewInit_result E \<noteq> GLEW_OK
     then Inl (- 1) else Inr (glfwCreateWindow_result E))"
  by (simp add: startup_def glfw_calls call_def Let_def split_def)

lemma trace_startup_no_glfw:
  "glfwInit_result E = 0 \<Longrightarrow> trace (snd (startup E cfg s)) = trace s @ [Call GlfwInit]"
  by (simp add: startup_def glfw_calls call_def)

lemma trace_startup_no_window:
  "glfwInit_result E \<noteq> 0 \<Longrightarrow> glfwCreateWindow_result E = 0 \<Longrightarrow>
   trace (snd (startup E cfg s))
   = trace s @ map Call ([GlfwInit] @ window_hints cfg
                         @ [GlfwCreateWindow 640 480 ''Hello World'', GlfwTerminate])"
  by (simp add: startup_def glfw_calls call_def window_hints_def)

lemma trace_startup_no_glew:
  "glfwInit_result E \<noteq> 0 \<Longrightarrow> glfwCreateWindow_result E \<noteq> 0 \<Longrightarrow>
   glewInit_result E \<noteq> GLEW_OK \<Longrightarrow>
   trace (snd (startup E cfg s))
   = trace s @ map Call ([GlfwInit] @ window_hints cfg
                         @ [GlfwCreateWindow 640 480 ''Hello World'',
                            GlfwMakeContextCurrent (glfwCreateWindow_result E),
                            Set_glewExperimental GL_TRUE, GlewInit,
                            GlewGetErrorString (glewInit_result E)])
     @ [Stderr (''GLEW init error: '' @ glewGetErrorString_result E (glewInit_result E)
                @ ''\<newline>''),
        Call GlfwTerminate]"
  by (simp add: startup_def glfw_calls call_def window_hints_def cerr_def)

lemma trace_startup_ok:
  "glfwInit_result E \<noteq> 0 \<Longrightarrow> glfwCreateWindow_result E \<noteq> 0 \<Longrightarrow>
   glewInit_result E = GLEW_OK \<Longrightarrow>
   trace (snd (startup E cfg s))
   = trace s @ map Call ([GlfwInit] @ window_hints cfg
                         @ [GlfwCreateWindow 640 480 ''Hello World'',
                            GlfwMakeContextCurrent (glfwCreateWindow_result E),
                            Set_glewExperimental GL_TRUE, GlewInit])"
  by (simp add: startup_def glfw_calls call_def window_hints_def cerr_def)

lemma fst_glGetShaderInfoLog:
  assumes "1 < len"
  shows "fst (glGetShaderInfoLog E sh len (replicate (nat len) (CHR 0x00)) s) = log_buffer E sh len"
proof -
  define shown where "shown = take (nat (len - 1)) (shader_info_log E sh)"
  have "length shown \<le> nat (len - 1)"
    by (simp add: shown_def)
  with assms have "length shown < nat len"
    by linarith
  then have "nat len - length shown = Suc (nat len - Suc (length shown))"
    by simp
  then have "replicate (nat len - length shown) (CHR 0x00)
             = CHR 0x00 # replicate (nat len - Suc (length shown)) (CHR 0x00)"
    by (metis replicate_Suc)
  then show ?thesis
    by (simp add: glGetShaderInfoLog_def call_def log_buffer_def Let_def shown_def [symmetric])
qed

lemma PrintShaderInfoLog_eq:
  "PrintShaderInfoLog E (sint sh) s =
    (let s1 = ext E (GlGetShaderiv sh GL_INFO_LOG_LENGTH) s
     in if 1 < log_length E sh then
          cout (''Shader Info Log:\<newline>'' @ log_buffer E sh (log_length E sh) @ ''\<newline>'')
            (ext E (GlGetShaderInfoLog sh (log_length E sh)) s1)
        else s1)"
proof (cases "1 < log_length E sh")
  case True
  obtain b s2 where g: "glGetShaderInfoLog E sh (log_length E sh)
      (replicate (nat (log_length E sh)) (CHR 0x00)) (ext E (GlGetShaderiv sh GL_INFO_LOG_LENGTH) s)
      = (b, s2)"
    by (cases "glGetShaderInfoLog E sh (log_length E sh)
      (replicate (nat (log_length E sh)) (CHR 0x00)) (ext E (GlGetShaderiv sh GL_INFO_LOG_LENGTH) s)")
  have b: "b = log_buffer E sh (log_length E sh)"
    using fst_glGetShaderInfoLog [OF True, of E sh "ext E (GlGetShaderiv sh GL_INFO_LOG_LENGTH) s"] g
    by simp
  have s2: "s2 = ext E (GlGetShaderInfoLog sh (log_length E sh))
                  (ext E (GlGetShaderiv sh GL_INFO_LOG_LENGTH) s)"
    using g by (simp add: glGetShaderInfoLog_def call_def)
  show ?thesis
    using True
    by (simp add: PrintShaderInfoLog_def glGetShaderiv_def call_def log_length_def [symmetric]
          g b s2)
next
  case False
  then show ?thesis
    by (simp add: PrintShaderInfoLog_def glGetShaderiv_def call_def log_length_def [symmetric])
qed

lemma fst_build_resources:
  "fst (build_resources E cfg s) =
    (generated E Addr_VAO, generated E Addr_VBO, generated E Addr_EBO,
     glCreateShader_result E GL_VERTEX_SHADER, glCreateShader_result E GL_FRAGMENT_SHADER,
     glCreateProgram_result E)"
  by (simp add: build_resources_def upload_buffers_def vertex_shader_def fragment_shader_def
        link_program_def vertex_layout_def gl_calls checked split_def Let_def)

lemma main_eq:
  "main E cfg =
    (if glfwInit_result E = 0 \<or> glfwCreateWindow_result E = 0 \<or> glewInit_result E \<noteq> GLEW_OK
     then Some (- 1, snd (startup E cfg \<lparr>errors = [], trace = []\<rparr>))
     else case render_loop E cfg (glfwCreateWindow_result E) (loop_entry E cfg) of
            None \<Rightarrow> None
          | Some s \<Rightarrow>
              Some (0, teardown E cfg (glCreateProgram_result E)
                         (glCreateShader_result E GL_FRAGMENT_SHADER)
                         (glCreateShader_result E GL_VERTEX_SHADER)
                         (generated E Addr_EBO) (generated E Addr_VBO) (generated E Addr_VAO) s))"
proof -
  obtain r s1 where st: "startup E cfg \<lparr>errors = [], trace = []\<rparr> = (r, s1)"
    by (cases "startup E cfg \<lparr>errors = [], trace = []\<rparr>")
  obtain h s2 where br: "build_resources E cfg s1 = (h, s2)"
    by (cases "build_resources E cfg s1")
  have r: "r = (if glfwInit_result E = 0 \<or> glfwCreateWindow_result E = 0
                   \<or> glewInit_result E \<noteq> GLEW_OK
                then Inl (- 1) else Inr (glfwCreateWindow_result E))"
    using fst_startup [of E cfg "\<lparr>errors = [], trace = []\<rparr>"] st by simp
  have h: "h = (generated E Addr_VAO, generated E Addr_VBO, generated E Addr_EBO,
     glCreateShader_result E GL_VERTEX_SHADER, glCreateShader_result E GL_FRAGMENT_SHADER,
     glCreateProgram_result E)"
    using fst_build_resources [of E cfg s1] br by simp
  show ?thesis
    by (simp add: main_def loop_entry_def st br r h)
qed

lemma render_loop_step:
  "render_loop E cfg window s =
    (if close_requested E window s then Some (snd (glfwWindowShouldClose E window s))
     else render_loop E cfg window (frame E cfg window (snd (glfwWindowShouldClose E window s))))"
  by (subst render_loop.simps) (simp add: close_requested_def split_def)

lemma render_loop_exits:
  "close_requested E window (run_frames E cfg window k s) \<Longrightarrow>
   (\<forall>j<k. \<not> close_requested E window (run_frames E cfg window j s)) \<Longrightarrow>
   render_loop E cfg window s
   = Some (snd (glfwWindowShouldClose E window (run_frames E cfg window k s)))"
proof (induction k arbitrary: s)
  case 0
  then show ?case
    by (subst render_loop_step) simp
next
  case (Suc k)
  let ?s1 = "frame E cfg window (snd (glfwWindowShouldClose E window s))"
  from Suc.prems(2) have open0: "\<not> close_requested E window s"
    by (metis run_frames.simps(1) zero_less_Suc)
  have later: "\<forall>j<k. \<not> close_requested E window (run_frames E cfg window j ?s1)"
  proof (intro allI impI)
    fix j assume "j < k"
    then have "Suc j < Suc k" by simp
    with Suc.prems(2) have "\<not> close_requested E window (run_frames E cfg window (Suc j) s)"
      by blast
    then show "\<not> close_requested E window (run_frames E cfg window j ?s1)"
      by simp
  qed
  from Suc.prems(1) have "close_requested E window (run_frames E cfg window k ?s1)"
    by simp
  from Suc.IH [OF this later] have "render_loop E cfg window ?s1
      = Some (snd (glfwWindowShouldClose E window (run_frames E cfg window (Suc k) s)))"
    by simp
  with open0 show ?case
    by (subst render_loop_step) simp
qed

lemma render_loop_returns:
  "render_loop E cfg window s = Some s' \<Longrightarrow>
   \<exists>k. close_requested E window (run_frames E cfg window k s)
     \<and> (\<forall>j<k. \<not> close_requested E window (run_frames E cfg window j s))
     \<and> s' = snd (glfwWindowShouldClose E window (run_frames E cfg window k s))"
proof (induction rule: render_loop.raw_induct [rotated 1, consumes 1])
  case (1 loop E cfg window s s')
  show ?case
  proof (cases "close_requested E window s")
    case True
    with 1(2) have "s' = snd (glfwWindowShouldClose E window s)"
      by (simp add: close_requested_def split_def)
    with True show ?thesis
      by (intro exI [of _ 0]) simp
  next
    case False
    let ?s1 = "frame E cfg window (snd (glfwWindowShouldClose E window s))"
    from False 1(2) have "loop E cfg window ?s1 = Some s'"
      by (simp add: close_requested_def split_def)
    from 1(1) [OF this] obtain k where
      k: "close_requested E window (run_frames E cfg window k ?s1)"
         "\<forall>j<k. \<not> close_requested E window (run_frames E cfg window j ?s1)"
         "s' = snd (glfwWindowShouldClose E window (run_frames E cfg window k ?s1))"
      by blast
    have "\<forall>j<Suc k. \<not> close_requested E window (run_frames E cfg window j s)"
    proof (intro allI impI)
      fix j assume "j < Suc k"
      then show "\<not> close_requested E window (run_frames E cfg window j s)"
        using False k(2) by (cases j) simp_all
    qed
    with k(1,3) show ?thesis
      by (intro exI [of _ "Suc k"]) simp
  qed
qed

lemma api_calls_run_frames:
  "api_calls (trace (run_frames E cfg window k s))
   = api_calls (trace s)
     @ concat (replicate k
         [GlfwWindowShouldClose window, GlClear GL_COLOR_BUFFER_BIT,
          GlDrawElements GL_TRIANGLES 3 GL_UNSIGNED_INT 0, GlfwSwapBuffers window,
          GlfwPollEvents])"
proof (induction k arbitrary: s)
  case 0
  show ?case by simp
next
  case (Suc k)
  show ?case
    by (simp add: Suc.IH frame_calls glfwWindowShouldClose_def Let_def)
qed

lemma api_calls_PrintShaderInfoLog:
  "api_calls (trace (PrintShaderInfoLog E (sint sh) s)) = api_calls (trace s) @ info_log_calls E sh"
  by (simp add: PrintShaderInfoLog_eq info_log_calls_def cout_def Let_def)

lemma stdout_of_PrintShaderInfoLog:
  "stdout_of (trace (PrintShaderInfoLog E (sint sh) s)) = stdout_of (trace s) @ info_log_output E sh"
  by (simp add: PrintShaderInfoLog_eq info_log_output_def cout_def Let_def)

lemma messages_PrintShaderInfoLog:
  "messages (trace (PrintShaderInfoLog E (sint (sh :: GLuint)) s)) = messages (trace s)"
  by (simp add: PrintShaderInfoLog_eq cout_def Let_def)

lemma stdout_of_ext [simp]: "stdout_of (trace (ext E c s)) = stdout_of (trace s)"
  by simp

lemma fst_vertex_shader:
  "fst (vertex_shader E cfg s)
   = (glCreateShader_result E GL_VERTEX_SHADER,
      compile_status E (glCreateShader_result E GL_VERTEX_SHADER) 0)"
  by (simp add: vertex_shader_def gl_calls checked compile_status_def Let_def)

lemma api_calls_vertex_shader:
  "api_calls (trace (snd (vertex_shader E cfg s)))
   = (let vs = glCreateShader_result E GL_VERTEX_SHADER in
      api_calls (trace s)
      @ [GlCreateShader GL_VERTEX_SHADER, GlShaderSource vs 1 [VertexShaderSource],
         GlCompileShader vs, GlGetShaderiv vs GL_COMPILE_STATUS]
      @ (if compile_status E vs 0 = 0 then info_log_calls E vs else []))"
  by (simp add: vertex_shader_def gl_calls checked compile_status_def Let_def
        api_calls_PrintShaderInfoLog cerr_def)

lemma messages_vertex_shader:
  "messages (trace (snd (vertex_shader E cfg s)))
   = messages (trace s)
     @ (if compile_status E (glCreateShader_result E GL_VERTEX_SHADER) 0 = 0
        then [''Vertex shader failed\<newline>''] else [])"
  by (simp add: vertex_shader_def gl_calls checked compile_status_def Let_def
        messages_PrintShaderInfoLog cerr_def is_gl_error_line_def)

lemma stdout_of_vertex_shader:
  "stdout_of (trace (snd (vertex_shader E cfg s)))
   = stdout_of (trace s)
     @ (if compile_status E (glCreateShader_result E GL_VERTEX_SHADER) 0 = 0
        then info_log_output E (glCreateShader_result E GL_VERTEX_SHADER) else [])"
  by (simp add: vertex_shader_def gl_calls checked compile_status_def Let_def
        stdout_of_PrintShaderInfoLog cerr_def)

lemma fst_fragment_shader:
  "fst (fragment_shader E cfg compiled s)
   = (glCreateShader_result E GL_FRAGMENT_SHADER,
      compile_status E (glCreateShader_result E GL_FRAGMENT_SHADER) compiled)"
  by (simp add: fragment_shader_def gl_calls checked compile_status_def Let_def)

lemma api_calls_fragment_shader:
  "api_calls (trace (snd (fragment_shader E cfg compiled s)))
   = (let fs = glCreateShader_result E GL_FRAGMENT_SHADER in
      api_calls (trace s)
      @ [GlCreateShader GL_FRAGMENT_SHADER, GlShaderSource fs 1 [FragmentShaderSource],
         GlCompileShader fs, GlGetShaderiv fs GL_COMPILE_STATUS]
      @ (if compile_status E fs compiled = 0 then info_log_calls E fs else []))"
  by (simp add: fragment_shader_def gl_calls checked compile_status_def Let_def
        api_calls_PrintShaderInfoLog cerr_def)

lemma messages_fragment_shader:
  "messages (trace (snd (fragment_shader E cfg compiled s)))
   = messages (trace s)
     @ (if compile_status E (glCreateShader_result E GL_FRAGMENT_SHADER) compiled = 0
        then [''Fragment shader failed\<newline>''] else [])"
  by (simp add: fragment_shader_def gl_calls checked compile_status_def Let_def
        messages_PrintShaderInfoLog cerr_def is_gl_error_line_def)

lemma stdout_of_fragment_shader:
  "stdout_of (trace (snd (fragment_shader E cfg compiled s)))
   = stdout_of (trace s)
     @ (if compile_status E (glCreateShader_result E GL_FRAGMENT_SHADER) compiled = 0
        then info_log_output E (glCreateShader_result E GL_FRAGMENT_SHADER) else [])"
  by (simp add: fragment_shader_def gl_calls checked compile_status_def Let_def
        stdout_of_PrintShaderInfoLog cerr_def)

lemma api_calls_link_program:
  "api_calls (trace (snd (link_program E cfg vs fs s)))
   = (let prog = glCreateProgram_result E in
      api_calls (trace s)
      @ [GlCreateProgram, GlAttachShader prog vs, GlAttachShader prog fs,
         GlBindFragDataLocation prog 0 ''outColor'', GlLinkProgram prog, GlUseProgram prog])"
  by (simp add: link_program_def gl_calls checked Let_def)

lemma api_calls_vertex_layout:
  "api_calls (trace (vertex_layout E cfg prog VBO s))
   = (let posLoc = glGetAttribLocation_result E prog ''position'' in
      api_calls (trace s)
      @ [GlGetAttribLocation prog ''position'', GlEnableVertexAttribArray (word_of_int posLoc),
         GlBindBuffer GL_ARRAY_BUFFER VBO,
         GlVertexAttribPointer (word_of_int posLoc) 2 GL_FLOAT GL_FALSE 0 0,
         GlBindBuffer GL_ARRAY_BUFFER 0])"
  by (simp add: vertex_layout_def gl_calls checked Let_def)

lemma digit_value_digit_char: "d < 16 \<Longrightarrow> digit_value (digit_char d) = d"
proof -
  assume "d < 16"
  then have "d = 0 \<or> d = 1 \<or> d = 2 \<or> d = 3 \<or> d = 4 \<or> d = 5 \<or> d = 6 \<or> d = 7 \<or> d = 8
             \<or> d = 9 \<or> d = 10 \<or> d = 11 \<or> d = 12 \<or> d = 13 \<or> d = 14 \<or> d = 15"
    by arith
  then show ?thesis
    by (elim disjE) (simp_all add: digit_value_def digit_char_def)
qed

lemma read_digits_snoc: "read_digits b (cs @ [c]) = read_digits b cs * b + digit_value c"
  by (simp add: read_digits_def)

lemma read_digits_digits_of:
  "2 \<le> b \<Longrightarrow> b \<le> 16 \<Longrightarrow> read_digits b (digits_of b n) = n"
proof (induction b n rule: digits_of.induct)
  case (1 b n)
  show ?case
  proof (cases "n < b")
    case True
    with 1(3) have "n < 16" by simp
    with True show ?thesis
      by (subst digits_of.simps) (simp add: read_digits_def digit_value_digit_char)
  next
    case False
    with 1 have IH: "read_digits b (digits_of b (n div b)) = n div b"
      by simp
    from 1(2,3) have "n mod b < 16"
      by (meson less_le_trans mod_less_divisor zero_less_numeral order_less_le_trans
            less_le_trans pos2)
    with False 1(2) show ?thesis
      by (subst digits_of.simps) (simp add: read_digits_snoc IH digit_value_digit_char)
  qed
qed

lemma read_show_hex: "read_digits 16 (show_hex w) = unat w"
  by (simp add: show_hex_def read_digits_digits_of)

lemma fetched_all:
  assumes "GL_NO_ERROR \<notin> set q"
  shows "fetched q = q \<and> left_over q = []"
proof -
  have kept: "takeWhile (\<lambda>e. e \<noteq> GL_NO_ERROR) q = q"
    using assms by (induction q) auto
  have none: "dropWhile (\<lambda>e. e \<noteq> GL_NO_ERROR) q = []"
    using assms by (induction q) auto
  show ?thesis
    unfolding fetched_def left_over_def kept none by simp
qed

lemma fst_link_program: "fst (link_program E cfg vs fs s) = glCreateProgram_result E"
  by (simp add: link_program_def gl_calls checked)

lemma api_calls_build_resources:
  "api_calls (trace (snd (build_resources E cfg s))) = api_calls (trace s) @ build_calls E"
  by (simp add: build_resources_def split_def Let_def build_calls_def
        fst_upload_buffers api_calls_upload_buffers fst_vertex_shader api_calls_vertex_shader
        fst_fragment_shader api_calls_fragment_shader fst_link_program api_calls_link_program
        api_calls_vertex_layout)

lemma api_calls_map_Call [simp]: "api_calls (map Call cs) = cs"
  by (induction cs) simp_all

lemma api_calls_loop_entry:
  "started E \<Longrightarrow> api_calls (trace (loop_entry E cfg)) = startup_calls E cfg @ build_calls E"
  by (simp add: loop_entry_def api_calls_build_resources trace_startup_ok started_def
        startup_calls_def)

lemma main_started:
  "started E \<Longrightarrow>
   main E cfg =
    (case render_loop E cfg (glfwCreateWindow_result E) (loop_entry E cfg) of
       None \<Rightarrow> None
     | Some s \<Rightarrow>
         Some (0, teardown E cfg (glCreateProgram_result E)
                    (glCreateShader_result E GL_FRAGMENT_SHADER)
                    (glCreateShader_result E GL_VERTEX_SHADER)
                    (generated E Addr_EBO) (generated E Addr_VBO) (generated E Addr_VAO) s))"
  by (simp add: main_eq started_def)

lemma main_not_started:
  "\<not> started E \<Longrightarrow> main E cfg = Some (- 1, snd (startup E cfg \<lparr>errors = [], trace = []\<rparr>))"
  by (auto simp: main_eq started_def)

lemma api_calls_poll:
  "api_calls (trace (snd (glfwWindowShouldClose E window s)))
   = api_calls (trace s) @ [GlfwWindowShouldClose window]"
  by (simp add: glfwWindowShouldClose_def Let_def)

lemma main_calls:
  assumes "started E" and "main E cfg = Some (r, s)"
  shows "r = 0 \<and> (\<exists>k. api_calls (trace s)
           = startup_calls E cfg @ build_calls E
             @ concat (replicate k (GlfwWindowShouldClose (glfwCreateWindow_result E)
                                    # frame_calls_of (glfwCreateWindow_result E)))
             @ [GlfwWindowShouldClose (glfwCreateWindow_result E)]
             @ teardown_calls_of E)"
proof -
  let ?w = "glfwCreateWindow_result E"
  from assms obtain s' where
    loop: "render_loop E cfg ?w (loop_entry E cfg) = Some s'" and
    r: "r = 0" and
    s: "s = teardown E cfg (glCreateProgram_result E)
                    (glCreateShader_result E GL_FRAGMENT_SHADER)
                    (glCreateShader_result E GL_VERTEX_SHADER)
                    (generated E Addr_EBO) (generated E Addr_VBO) (generated E Addr_VAO) s'"
    by (auto simp: main_started split: option.splits)
  from render_loop_returns [OF loop] obtain k where
    s': "s' = snd (glfwWindowShouldClose E ?w (run_frames E cfg ?w k (loop_entry E cfg)))"
    by blast
  have "api_calls (trace s)
        = startup_calls E cfg @ build_calls E
          @ concat (replicate k (GlfwWindowShouldClose ?w # frame_calls_of ?w))
          @ [GlfwWindowShouldClose ?w] @ teardown_calls_of E"
    using assms(1)
    by (simp add: s s' teardown_calls api_calls_poll api_calls_run_frames api_calls_loop_entry
          frame_calls_of_def teardown_calls_of_def)
  with r show ?thesis by blast
qed

lemma close_after_poll:
  assumes "glfwWindowShouldClose_result E
           = (\<lambda>tr. if GlfwPollEvents \<in> set (api_calls tr) then 1 else 0)"
  shows "close_requested E window s \<longleftrightarrow> GlfwPollEvents \<in> set (api_calls (trace s))"
  by (simp add: close_requested_def glfwWindowShouldClose_def Let_def assms)

lemma no_poll_before_loop:
  "started E \<Longrightarrow> GlfwPollEvents \<notin> set (api_calls (trace (loop_entry E cfg)))"
  by (simp add: api_calls_loop_entry startup_calls_def window_hints_def build_calls_def
        info_log_calls_def Let_def)

lemma one_frame_run:
  assumes "glfwWindowShouldClose_result E
           = (\<lambda>tr. if GlfwPollEvents \<in> set (api_calls tr) then 1 else 0)"
    and "GlfwPollEvents \<notin> set (api_calls (trace s))"
  shows "render_loop E cfg window s
         = Some (snd (glfwWindowShouldClose E window
                  (frame E cfg window (snd (glfwWindowShouldClose E window s)))))"
proof -
  have "close_requested E window (run_frames E cfg window 1 s)"
    by (simp add: close_after_poll [OF assms(1)] frame_calls)
  moreover have "\<forall>j<1. \<not> close_requested E window (run_frames E cfg window j s)"
    using assms(2) by (simp add: close_after_poll [OF assms(1)])
  ultimately show ?thesis
    using render_loop_exits [of E window cfg 1 s] by simp
qed

lemma no_call_in_drain: "Call c \<notin> set (drain_events Function File Line q)"
  by (auto simp: drain_events_def)

lemma takeWhile_not_in: "x \<notin> set xs \<Longrightarrow> takeWhile (\<lambda>e. e \<noteq> x) (xs @ x # ys) = xs"
  by (induction xs) auto

lemma dropWhile_not_in: "x \<notin> set xs \<Longrightarrow> dropWhile (\<lambda>e. e \<noteq> x) (xs @ x # ys) = x # ys"
  by (induction xs) auto

lemma drain_ends_with_empty_fetch: "ends_with_empty_fetch (drain_events Function File Line q)"
  by (simp add: ends_with_empty_fetch_def drain_events_def)

lemma CheckedGLCall_debug:
  "debug cfg \<Longrightarrow>
   CheckedGLCall cfg Line x_text (call E c r) s
   = (let before = drain_events (''>>BEFORE<< '' @ x_text) (source_file cfg) Line (errors s);
          pending = left_over (errors s) @ raised E (trace s @ before @ [Call c])
      in (r, \<lparr>errors = left_over pending,
              trace = trace s @ before @ [Call c]
                      @ drain_events x_text (source_file cfg) Line pending\<rparr>))"
  by (simp add: CheckedGLCall_call after_call_def PrintOpenGLErrors_eq ext_def Let_def)

lemma CheckedGLResult_debug:
  "debug cfg \<Longrightarrow>
   CheckedGLResult cfg Line x_text (call E c r) s
   = (let pending = errors s @ raised E (trace s @ [Call c])
      in (r, \<lparr>errors = left_over pending,
              trace = trace s @ [Call c] @ drain_events x_text (source_file cfg) Line pending\<rparr>))"
  by (simp add: CheckedGLResult_call after_call_def PrintOpenGLErrors_eq ext_def Let_def)

lemma show_dec_101: "show_dec 101 = ''101''"
  by (simp add: show_dec_def digits_of.simps digit_char_def)

lemma show_dec_127: "show_dec 127 = ''127''"
  by (simp add: show_dec_def digits_of.simps digit_char_def)

lemma show_hex_INVALID_ENUM: "show_hex GL_INVALID_ENUM = ''500''"
  by (simp add: show_hex_def gl_error_codes digits_of.simps digit_char_def)

lemma drain_events_Nil: "drain_events Function File Line [] = [GetError GL_NO_ERROR]"
  by (simp add: drain_events_def fetched_def)

lemma drain_events_one:
  "e \<noteq> GL_NO_ERROR \<Longrightarrow>
   drain_events Function File Line [e]
   = [GetError e,
      Stderr (spec_error_line File (show_dec Line) Function (GlErrorToString e) (show_hex e)),
      GetError GL_NO_ERROR]"
  by (simp add: drain_events_def fetched_def)

lemma snd_startup_no_glfw:
  "glfwInit_result E = 0 \<Longrightarrow>
   snd (startup E cfg \<lparr>errors = [], trace = []\<rparr>)
   = \<lparr>errors = raised E [Call GlfwInit], trace = [Call GlfwInit]\<rparr>"
  by (simp add: startup_def glfw_calls call_def ext_def Let_def)

lemma started_quiet [simp]: "started quiet_env"
  by (simp add: started_def quiet_env_def GLEW_OK_def)

lemma quiet_closes:
  "glfwWindowShouldClose_result quiet_env
   = (\<lambda>tr. if GlfwPollEvents \<in> set (api_calls tr) then 1 else 0)"
  by (simp add: quiet_env_def)

lemma quiet_loop_exits:
  "\<exists>s'. render_loop quiet_env cfg w (loop_entry quiet_env cfg) = Some s'"
  using one_frame_run [OF quiet_closes no_poll_before_loop [OF started_quiet]] by blast

lemma started_failing [simp]: "started failing_shaders_env"
  by (simp add: started_def failing_shaders_env_def quiet_env_def GLEW_OK_def)

lemma failing_closes:
  "glfwWindowShouldClose_result failing_shaders_env
   = (\<lambda>tr. if GlfwPollEvents \<in> set (api_calls tr) then 1 else 0)"
  by (simp add: failing_shaders_env_def quiet_env_def)

lemma failing_loop_exits:
  "\<exists>s'. render_loop failing_shaders_env cfg w (loop_entry failing_shaders_env cfg) = Some s'"
  using one_frame_run [OF failing_closes no_poll_before_loop [OF started_failing]] by blast

lemma last_teardown: "last (trace (teardown E cfg prog fs vs EBO VBO VAO s)) = Call GlfwTerminate"
  by (simp add: teardown_def glfw_calls call_def split_def)

lemma filter_concat_replicate:
  "filter P (concat (replicate k xs)) = concat (replicate k (filter P xs))"
  by (induction k) simp_all

lemma uploads_build_calls:
  "filter is_upload (build_calls E)
   = [GlBufferData GL_ARRAY_BUFFER 24 (Floats [0.0, 0.5, 0.5, - 0.5, - 0.5, - 0.5]) GL_STATIC_DRAW,
      GlBufferData GL_ELEMENT_ARRAY_BUFFER 12 (UInts [0, 1, 2]) GL_STATIC_DRAW]"
  by (simp add: build_calls_def Let_def info_log_calls_def)

lemma uploads_elsewhere:
  "filter is_upload (startup_calls E cfg) = []"
  "filter is_upload (GlfwWindowShouldClose w # frame_calls_of w) = []"
  "filter is_upload (GlfwWindowShouldClose w # teardown_calls_of E) = []"
  by (simp_all add: startup_calls_def window_hints_def frame_calls_of_def teardown_calls_of_def)

lemma render_loop_never:
  "render_loop E cfg window s = None
   \<longleftrightarrow> (\<forall>k. \<not> close_requested E window (run_frames E cfg window k s))"
proof
  assume n: "render_loop E cfg window s = None"
  show "\<forall>k. \<not> close_requested E window (run_frames E cfg window k s)"
  proof (rule ccontr)
    assume "\<not> (\<forall>k. \<not> close_requested E window (run_frames E cfg window k s))"
    then have "\<exists>k. close_requested E window (run_frames E cfg window k s)"
      by blast
    then obtain k where
      "close_requested E window (run_frames E cfg window k s)"
      "\<forall>j<k. \<not> close_requested E window (run_frames E cfg window j s)"
      using exists_least_iff [of "\<lambda>k. close_requested E window (run_frames E cfg window k s)"]
      by blast
    from render_loop_exits [OF this] n show False
      by simp
  qed
next
  assume "\<forall>k. \<not> close_requested E window (run_frames E cfg window k s)"
  then show "render_loop E cfg window s = None"
    using render_loop_returns [of E cfg window s] by (cases "render_loop E cfg window s") auto
qed

lemma visible_append [simp]: "visible (xs @ ys) = visible xs @ visible ys"
  by (induction xs rule: visible.induct) simp_all

lemma visible_map_Call [simp]: "visible (map Call cs) = map Call cs"
  by (induction cs) simp_all

lemma visible_fetch_report:
  "visible (concat (map (\<lambda>err. [GetError err, Stderr (spec_error_line f l x (n err) (h err))]) xs))
   = []"
  by (induction xs) simp_all

lemma visible_drain [simp]: "visible (drain_events Function File Line q) = []"
  by (simp add: drain_events_def visible_fetch_report)

lemma visible_after_call [simp]:
  "visible (trace (after_call cfg before Line x_text E c s)) = visible (trace s) @ [Call c]"
  by (simp add: after_call_def PrintOpenGLErrors_eq)

lemma api_calls_visible [simp]: "api_calls (visible tr) = api_calls tr"
  by (induction tr rule: visible.induct) simp_all

lemma stdout_of_visible [simp]: "stdout_of (visible tr) = stdout_of tr"
  by (induction tr rule: visible.induct) simp_all

lemma messages_visible [simp]: "messages (visible tr) = messages tr"
  by (induction tr rule: visible.induct) simp_all

lemma messages_map_Call [simp]: "messages (map Call cs) = []"
  by (induction cs) simp_all

lemma stdout_of_map_Call [simp]: "stdout_of (map Call cs) = []"
  by (induction cs) simp_all

lemma visible_PrintShaderInfoLog:
  "visible (trace (PrintShaderInfoLog E (sint sh) (cerr msg s)))
   = visible (trace s)
     @ (if is_gl_error_line msg then tl (shader_report E sh msg) else shader_report E sh msg)"
  by (simp add: PrintShaderInfoLog_eq shader_report_def cout_def cerr_def Let_def)

lemma not_error_line [simp]:
  "\<not> is_gl_error_line ''Vertex shader failed\<newline>''"
  "\<not> is_gl_error_line ''Fragment shader failed\<newline>''"
  by (simp_all add: is_gl_error_line_def)

lemma visible_upload_buffers:
  "visible (trace (snd (upload_buffers E cfg s)))
   = visible (trace s)
     @ map Call
        [GlGenVertexArrays 1 Addr_VAO,
         GlBindVertexArray (generated E Addr_VAO),
         GlGenBuffers 1 Addr_VBO,
         GlBindBuffer GL_ARRAY_BUFFER (generated E Addr_VBO),
         GlBufferData GL_ARRAY_BUFFER 24 (Floats [0, 1/2, 1/2, - (1/2), - (1/2), - (1/2)])
           GL_STATIC_DRAW,
         GlBindBuffer GL_ARRAY_BUFFER 0,
         GlGenBuffers 1 Addr_EBO,
         GlBindBuffer GL_ELEMENT_ARRAY_BUFFER (generated E Addr_EBO),
         GlBufferData GL_ELEMENT_ARRAY_BUFFER 12 (UInts [0, 1, 2]) GL_STATIC_DRAW]"
  by (simp add: upload_buffers_def gl_calls checked sizeof_array_def Vertices_def Elements_def)

lemma visible_vertex_shader:
  "visible (trace (snd (vertex_shader E cfg s)))
   = (let vs = glCreateShader_result E GL_VERTEX_SHADER in
      visible (trace s)
      @ map Call [GlCreateShader GL_VERTEX_SHADER, GlShaderSource vs 1 [VertexShaderSource],
                  GlCompileShader vs, GlGetShaderiv vs GL_COMPILE_STATUS]
      @ (if compile_status E vs 0 = 0
         then shader_report E vs ''Vertex shader failed\<newline>'' else []))"
  by (simp add: vertex_shader_def gl_calls checked compile_status_def Let_def
        visible_PrintShaderInfoLog)

lemma visible_fragment_shader:
  "visible (trace (snd (fragment_shader E cfg held s)))
   = (let fs = glCreateShader_result E GL_FRAGMENT_SHADER in
      visible (trace s)
      @ map Call [GlCreateShader GL_FRAGMENT_SHADER, GlShaderSource fs 1 [FragmentShaderSource],
                  GlCompileShader fs, GlGetShaderiv fs GL_COMPILE_STATUS]
      @ (if compile_status E fs held = 0
         then shader_report E fs ''Fragment shader failed\<newline>'' else []))"
  by (simp add: fragment_shader_def gl_calls checked compile_status_def Let_def
        visible_PrintShaderInfoLog)

lemma visible_link_program:
  "visible (trace (snd (link_program E cfg vs fs s)))
   = (let prog = glCreateProgram_result E in
      visible (trace s)
      @ map Call [GlCreateProgram, GlAttachShader prog vs, GlAttachShader prog fs,
                  GlBindFragDataLocation prog 0 ''outColor'', GlLinkProgram prog,
                  GlUseProgram prog])"
  by (simp add: link_program_def gl_calls checked Let_def)

lemma visible_vertex_layout:
  "visible (trace (vertex_layout E cfg prog VBO s))
   = (let posLoc = glGetAttribLocation_result E prog ''position'' in
      visible (trace s)
      @ map Call [GlGetAttribLocation prog ''position'',
                  GlEnableVertexAttribArray (word_of_int posLoc),
                  GlBindBuffer GL_ARRAY_BUFFER VBO,
                  GlVertexAttribPointer (word_of_int posLoc) 2 GL_FLOAT GL_FALSE 0 0,
                  GlBindBuffer GL_ARRAY_BUFFER 0])"
  by (simp add: vertex_layout_def gl_calls checked Let_def)

lemma visible_build_resources:
  "visible (trace (snd (build_resources E cfg s))) = visible (trace s) @ build_events E"
  by (simp add: build_resources_def split_def Let_def build_events_def
        fst_upload_buffers visible_upload_buffers fst_vertex_shader visible_vertex_shader
        fst_fragment_shader visible_fragment_shader fst_link_program visible_link_program
        visible_vertex_layout)

lemma visible_loop_entry:
  "started E \<Longrightarrow>
   visible (trace (loop_entry E cfg)) = map Call (startup_calls E cfg) @ build_events E"
  by (simp add: loop_entry_def visible_build_resources trace_startup_ok started_def
        startup_calls_def)

lemma visible_frame:
  "visible (trace (frame E cfg window s)) = visible (trace s) @ map Call (frame_calls_of window)"
  by (simp add: frame_def gl_calls glfw_calls checked call_def frame_calls_of_def)

lemma visible_poll:
  "visible (trace (snd (glfwWindowShouldClose E window s)))
   = visible (trace s) @ [Call (GlfwWindowShouldClose window)]"
  by (simp add: glfwWindowShouldClose_def Let_def)

lemma visible_run_frames:
  "visible (trace (run_frames E cfg window k s))
   = visible (trace s)
     @ map Call (concat (replicate k (GlfwWindowShouldClose window # frame_calls_of window)))"
proof (induction k arbitrary: s)
  case 0
  show ?case by simp
next
  case (Suc k)
  show ?case
    by (simp add: Suc.IH visible_frame visible_poll)
qed

lemma visible_teardown:
  "visible (trace (teardown E cfg (glCreateProgram_result E)
                    (glCreateShader_result E GL_FRAGMENT_SHADER)
                    (glCreateShader_result E GL_VERTEX_SHADER)
                    (generated E Addr_EBO) (generated E Addr_VBO) (generated E Addr_VAO) s))
   = visible (trace s) @ map Call (teardown_calls_of E)"
  by (simp add: teardown_def gl_calls glfw_calls checked call_def teardown_calls_of_def)

lemma main_events:
  assumes "started E" and "main E cfg = Some (r, sf)"
  shows "r = 0 \<and> (\<exists>k. visible (trace sf)
           = map Call (startup_calls E cfg) @ build_events E
             @ map Call (concat (replicate k (GlfwWindowShouldClose (glfwCreateWindow_result E)
                                              # frame_calls_of (glfwCreateWindow_result E)))
                         @ [GlfwWindowShouldClose (glfwCreateWindow_result E)]
                         @ teardown_calls_of E))"
proof -
  let ?w = "glfwCreateWindow_result E"
  from assms obtain s' where
    loop: "render_loop E cfg ?w (loop_entry E cfg) = Some s'" and
    r: "r = 0" and
    s: "sf = teardown E cfg (glCreateProgram_result E)
                    (glCreateShader_result E GL_FRAGMENT_SHADER)
                    (glCreateShader_result E GL_VERTEX_SHADER)
                    (generated E Addr_EBO) (generated E Addr_VBO) (generated E Addr_VAO) s'"
    by (auto simp: main_started split: option.splits)
  from render_loop_returns [OF loop] obtain k where
    s': "s' = snd (glfwWindowShouldClose E ?w (run_frames E cfg ?w k (loop_entry E cfg)))"
    by blast
  have "visible (trace sf)
        = map Call (startup_calls E cfg) @ build_events E
          @ map Call (concat (replicate k (GlfwWindowShouldClose ?w # frame_calls_of ?w))
                      @ [GlfwWindowShouldClose ?w] @ teardown_calls_of E)"
    using assms(1)
    by (simp add: s s' visible_teardown visible_poll visible_run_frames visible_loop_entry)
  with r show ?thesis by blast
qed

lemma messages_build_events:
  "messages (build_events E)
   = (if compile_status E (glCreateShader_result E GL_VERTEX_SHADER) 0 = 0
      then [''Vertex shader failed\<newline>''] else [])
     @ (if compile_status E (glCreateShader_result E GL_FRAGMENT_SHADER)
             (compile_status E (glCreateShader_result E GL_VERTEX_SHADER) 0) = 0
        then [''Fragment shader failed\<newline>''] else [])"
  by (simp add: build_events_def Let_def shader_report_def)

lemma stdout_of_build_events:
  "stdout_of (build_events E)
   = (if compile_status E (glCreateShader_result E GL_VERTEX_SHADER) 0 = 0
      then info_log_output E (glCreateShader_result E GL_VERTEX_SHADER) else [])
     @ (if compile_status E (glCreateShader_result E GL_FRAGMENT_SHADER)
             (compile_status E (glCreateShader_result E GL_VERTEX_SHADER) 0) = 0
        then info_log_output E (glCreateShader_result E GL_FRAGMENT_SHADER) else [])"
  by (simp add: build_events_def Let_def shader_report_def info_log_output_def)

lemma main_output:
  assumes "started E" and "main E cfg = Some (r, sf)"
  shows "messages (trace sf) = messages (build_events E)"
    and "stdout_of (trace sf) = stdout_of (build_events E)"
proof -
  from main_events [OF assms] obtain k where
    v: "visible (trace sf)
        = map Call (startup_calls E cfg) @ build_events E
          @ map Call (concat (replicate k (GlfwWindowShouldClose (glfwCreateWindow_result E)
                                           # frame_calls_of (glfwCreateWindow_result E)))
                      @ [GlfwWindowShouldClose (glfwCreateWindow_result E)]
                      @ teardown_calls_of E)"
    by blast
  have "messages (trace sf) = messages (visible (trace sf))"
    by simp
  also have "\<dots> = messages (build_events E)"
    unfolding v by simp
  finally show "messages (trace sf) = messages (build_events E)" .
  have "stdout_of (trace sf) = stdout_of (visible (trace sf))"
    by simp
  also have "\<dots> = stdout_of (build_events E)"
    unfolding v by simp
  finally show "stdout_of (trace sf) = stdout_of (build_events E)" .
qed

subsection \<open>The lookup of error names\<close>

text \<open>
  Claim C1. Each of the six standard error codes is mapped to its own symbolic name,
  spelled as the constant is, and every other code is mapped to \<open>Unknown GL error\<close>.
\<close>

theorem GlErrorToString_table:
  "GlErrorToString GL_NO_ERROR = ''GL_NO_ERROR''
   \<and> GlErrorToString GL_INVALID_ENUM = ''GL_INVALID_ENUM''
   \<and> GlErrorToString GL_INVALID_VALUE = ''GL_INVALID_VALUE''
   \<and> GlErrorToString GL_INVALID_OPERATION = ''GL_INVALID_OPERATION''
   \<and> GlErrorToString GL_INVALID_FRAMEBUFFER_OPERATION = ''GL_INVALID_FRAMEBUFFER_OPERATION''
   \<and> GlErrorToString GL_OUT_OF_MEMORY = ''GL_OUT_OF_MEMORY''
   \<and> (e \<notin> {GL_NO_ERROR, GL_INVALID_ENUM, GL_INVALID_VALUE, GL_INVALID_OPERATION,
            GL_INVALID_FRAMEBUFFER_OPERATION, GL_OUT_OF_MEMORY}
        \<longrightarrow> GlErrorToString e = ''Unknown GL error'')"
  by (simp add: GlErrorToString_def gl_error_codes)

theorem GlErrorToString_table_witness:
  "(0x0503 :: GLenum) \<notin> {GL_NO_ERROR, GL_INVALID_ENUM, GL_INVALID_VALUE, GL_INVALID_OPERATION,
            GL_INVALID_FRAMEBUFFER_OPERATION, GL_OUT_OF_MEMORY}
   \<and> GlErrorToString 0x0503 = ''Unknown GL error''
   \<and> GlErrorToString 0x0506 = ''GL_INVALID_FRAMEBUFFER_OPERATION''"
  using GlErrorToString_table [of "0x0503"]
  by (simp add: gl_error_codes)

subsection \<open>The drain of the error queue\<close>

text \<open>
  Claim C5. \<^verbatim>\<open>PrintOpenGLErrors\<close> always returns. It fetches the recorded errors in
  order and, after each fetch of an error, writes one line
  \<open>OpenGL Error in <file> at line <line> calling <label>: <NAME> (0x<hex>)\<close> to
  \<^verbatim>\<open>std::cerr\<close>, with the name \<^verbatim>\<open>GlErrorToString\<close> gives and the hexadecimal numeral of
  the code; it stops at the fetch that returns \<^verbatim>\<open>GL_NO_ERROR\<close> and does nothing else.
  When no \<^verbatim>\<open>GL_NO_ERROR\<close> is recorded, every recorded error is reported and the queue is
  empty afterwards.
\<close>

theorem PrintOpenGLErrors_lines:
  "trace (PrintOpenGLErrors Function File Line s)
   = trace s
     @ concat (map (\<lambda>err. [GetError err,
                           Stderr (''OpenGL Error in '' @ File @ '' at line '' @ show_dec Line
                                   @ '' calling '' @ Function @ '': '' @ GlErrorToString err
                                   @ '' (0x'' @ show_hex err @ '')\<newline>'')])
                (fetched (errors s)))
     @ [GetError GL_NO_ERROR]
   \<and> errors (PrintOpenGLErrors Function File Line s) = left_over (errors s)
   \<and> (GL_NO_ERROR \<notin> set (errors s) \<longrightarrow> fetched (errors s) = errors s \<and> left_over (errors s) = [])
   \<and> read_digits 16 (show_hex e) = unat e"
  by (simp add: PrintOpenGLErrors_eq drain_events_def spec_error_line_def fetched_all
        read_show_hex)

theorem PrintOpenGLErrors_lines_witness:
  "GL_NO_ERROR \<notin> set [GL_INVALID_ENUM, GL_OUT_OF_MEMORY]
   \<and> PrintOpenGLErrors ''glClear(GL_COLOR_BUFFER_BIT)'' ''main.cpp'' 127
        \<lparr>errors = [GL_INVALID_ENUM, GL_OUT_OF_MEMORY], trace = []\<rparr>
     = \<lparr>errors = [],
        trace = [GetError GL_INVALID_ENUM,
                 Stderr ''OpenGL Error in main.cpp at line 127 calling glClear(GL_COLOR_BUFFER_BIT): GL_INVALID_ENUM (0x500)\<newline>'',
                 GetError GL_OUT_OF_MEMORY,
                 Stderr ''OpenGL Error in main.cpp at line 127 calling glClear(GL_COLOR_BUFFER_BIT): GL_OUT_OF_MEMORY (0x505)\<newline>'',
                 GetError GL_NO_ERROR]\<rparr>"
proof -
  let ?s = "\<lparr>errors = [GL_INVALID_ENUM, GL_OUT_OF_MEMORY], trace = []\<rparr>"
  let ?r = "PrintOpenGLErrors ''glClear(GL_COLOR_BUFFER_BIT)'' ''main.cpp'' 127 ?s"
  have no: "GL_NO_ERROR \<notin> set [GL_INVALID_ENUM, GL_OUT_OF_MEMORY]"
    by (simp add: gl_error_codes)
  have dec: "show_dec 127 = ''127''"
    by (simp add: show_dec_def digits_of.simps digit_char_def)
  have hex: "show_hex GL_INVALID_ENUM = ''500''" "show_hex GL_OUT_OF_MEMORY = ''505''"
    by (simp_all add: show_hex_def gl_error_codes digits_of.simps digit_char_def)
  have names: "GlErrorToString GL_INVALID_ENUM = ''GL_INVALID_ENUM''"
    "GlErrorToString GL_OUT_OF_MEMORY = ''GL_OUT_OF_MEMORY''"
    by (simp_all add: GlErrorToString_def gl_error_codes)
  from PrintOpenGLErrors_lines [of "''glClear(GL_COLOR_BUFFER_BIT)''" "''main.cpp''" 127 ?s]
  have "trace ?r = [GetError GL_INVALID_ENUM,
                 Stderr ''OpenGL Error in main.cpp at line 127 calling glClear(GL_COLOR_BUFFER_BIT): GL_INVALID_ENUM (0x500)\<newline>'',
                 GetError GL_OUT_OF_MEMORY,
                 Stderr ''OpenGL Error in main.cpp at line 127 calling glClear(GL_COLOR_BUFFER_BIT): GL_OUT_OF_MEMORY (0x505)\<newline>'',
                 GetError GL_NO_ERROR]"
    and "errors ?r = []"
    using no by (simp_all add: dec hex names)
  then have "?r = \<lparr>errors = [],
        trace = [GetError GL_INVALID_ENUM,
                 Stderr ''OpenGL Error in main.cpp at line 127 calling glClear(GL_COLOR_BUFFER_BIT): GL_INVALID_ENUM (0x500)\<newline>'',
                 GetError GL_OUT_OF_MEMORY,
                 Stderr ''OpenGL Error in main.cpp at line 127 calling glClear(GL_COLOR_BUFFER_BIT): GL_OUT_OF_MEMORY (0x505)\<newline>'',
                 GetError GL_NO_ERROR]\<rparr>"
    by (cases ?r) simp
  with no show ?thesis by blast
qed

subsection \<open>The checked-call macros\<close>

text \<open>
  Claim C3. Without \<^verbatim>\<open>_DEBUG\<close>, \<^verbatim>\<open>CheckedGLCall(x)\<close> and \<^verbatim>\<open>CheckedGLResult(x)\<close> are the
  wrapped call \<open>x\<close> itself: the same result and the same state, so no fetch of the error
  queue and no output, whatever errors are pending.
\<close>

theorem release_wrappers_are_the_call:
  "\<not> debug cfg \<Longrightarrow>
   CheckedGLCall cfg Line x_text x = x \<and> CheckedGLResult cfg Line x_text x = x"
  by (auto simp: CheckedGLCall_def CheckedGLResult_def fun_eq_iff)

theorem release_wrappers_are_the_call_witness:
  "\<not> debug release_build
   \<and> CheckedGLCall release_build 127 ''glClear(GL_COLOR_BUFFER_BIT)''
        (glClear quiet_env GL_COLOR_BUFFER_BIT) \<lparr>errors = [GL_INVALID_ENUM], trace = []\<rparr>
     = ((), \<lparr>errors = [GL_INVALID_ENUM], trace = [Call (GlClear GL_COLOR_BUFFER_BIT)]\<rparr>)
   \<and> CheckedGLResult release_build 113 ''glCreateProgram()''
        (glCreateProgram quiet_env) \<lparr>errors = [GL_INVALID_ENUM], trace = []\<rparr>
     = (3, \<lparr>errors = [GL_INVALID_ENUM], trace = [Call GlCreateProgram]\<rparr>)"
proof -
  have r: "\<not> debug release_build"
    by (simp add: release_build_def)
  show ?thesis
    using r release_wrappers_are_the_call [OF r, of 127 "''glClear(GL_COLOR_BUFFER_BIT)''"
        "glClear quiet_env GL_COLOR_BUFFER_BIT"]
      release_wrappers_are_the_call [OF r, of 113 "''glCreateProgram()''"
        "glCreateProgram quiet_env"]
    by (simp add: glClear_def glCreateProgram_def call_def ext_def quiet_env_def)
qed

text \<open>
  Claim C4, as the code has it. With \<^verbatim>\<open>_DEBUG\<close>, \<^verbatim>\<open>CheckedGLCall\<close> around a library
  call drains the error queue under the label \<open>>>BEFORE<<\<close> and the text of the call, makes
  the call, and drains the queue again under the text of the call. \<^verbatim>\<open>CheckedGLResult\<close>
  makes the call first and drains the queue once, after it: an error that was pending
  before the call is reported after it, under the text of the call. So the events
  \<^verbatim>\<open>CheckedGLCall\<close> adds are drained before and after the call, and those of
  \<^verbatim>\<open>CheckedGLResult\<close> are not.
\<close>

theorem debug_wrappers_drain:
  assumes "debug cfg"
  shows "CheckedGLCall cfg Line x_text (call E c r) s
         = (let before = drain_events (''>>BEFORE<< '' @ x_text) (source_file cfg) Line (errors s);
                pending = left_over (errors s) @ raised E (trace s @ before @ [Call c])
            in (r, \<lparr>errors = left_over pending,
                    trace = trace s @ before @ [Call c]
                            @ drain_events x_text (source_file cfg) Line pending\<rparr>))
       \<and> CheckedGLResult cfg Line x_text (call E c r) s
         = (let pending = errors s @ raised E (trace s @ [Call c])
            in (r, \<lparr>errors = left_over pending,
                    trace = trace s @ [Call c]
                            @ drain_events x_text (source_file cfg) Line pending\<rparr>))
       \<and> drained_before_and_after c
            (drop (length (trace s)) (trace (snd (CheckedGLCall cfg Line x_text (call E c r) s))))
       \<and> \<not> drained_before_and_after c
            (drop (length (trace s)) (trace (snd (CheckedGLResult cfg Line x_text (call E c r) s))))"
proof (intro conjI)
  show "CheckedGLCall cfg Line x_text (call E c r) s
         = (let before = drain_events (''>>BEFORE<< '' @ x_text) (source_file cfg) Line (errors s);
                pending = left_over (errors s) @ raised E (trace s @ before @ [Call c])
            in (r, \<lparr>errors = left_over pending,
                    trace = trace s @ before @ [Call c]
                            @ drain_events x_text (source_file cfg) Line pending\<rparr>))"
    by (rule CheckedGLCall_debug [OF assms])
  show "CheckedGLResult cfg Line x_text (call E c r) s
         = (let pending = errors s @ raised E (trace s @ [Call c])
            in (r, \<lparr>errors = left_over pending,
                    trace = trace s @ [Call c]
                            @ drain_events x_text (source_file cfg) Line pending\<rparr>))"
    by (rule CheckedGLResult_debug [OF assms])
  show "drained_before_and_after c
          (drop (length (trace s)) (trace (snd (CheckedGLCall cfg Line x_text (call E c r) s))))"
    by (simp add: CheckedGLCall_debug [OF assms] Let_def drained_before_and_after_def
          takeWhile_not_in dropWhile_not_in no_call_in_drain drain_ends_with_empty_fetch)
  show "\<not> drained_before_and_after c
          (drop (length (trace s)) (trace (snd (CheckedGLResult cfg Line x_text (call E c r) s))))"
    by (simp add: CheckedGLResult_debug [OF assms] Let_def drained_before_and_after_def
          ends_with_empty_fetch_def)
qed

theorem debug_wrappers_drain_witness:
  "debug debug_build
   \<and> CheckedGLCall debug_build 127 ''glClear(GL_COLOR_BUFFER_BIT)''
        (call quiet_env (GlClear GL_COLOR_BUFFER_BIT) ()) \<lparr>errors = [GL_INVALID_ENUM], trace = []\<rparr>
     = ((), \<lparr>errors = [],
             trace = [GetError GL_INVALID_ENUM,
                      Stderr ''OpenGL Error in main.cpp at line 127 calling >>BEFORE<< glClear(GL_COLOR_BUFFER_BIT): GL_INVALID_ENUM (0x500)\<newline>'',
                      GetError GL_NO_ERROR,
                      Call (GlClear GL_COLOR_BUFFER_BIT),
                      GetError GL_NO_ERROR]\<rparr>)"
proof -
  have d: "debug debug_build"
    by (simp add: debug_build_def)
  have e: "GL_INVALID_ENUM \<noteq> GL_NO_ERROR"
    by (simp add: gl_error_codes)
  have l: "left_over [GL_INVALID_ENUM] = []"
    by (simp add: left_over_def gl_error_codes)
  have n: "GlErrorToString GL_INVALID_ENUM = ''GL_INVALID_ENUM''"
    by (simp add: GlErrorToString_def gl_error_codes)
  have q: "raised quiet_env tr = []" for tr
    by (simp add: quiet_env_def)
  have f: "source_file debug_build = ''main.cpp''"
    by (simp add: debug_build_def)
  show ?thesis
    using d debug_wrappers_drain [OF d, of 127 "''glClear(GL_COLOR_BUFFER_BIT)''" quiet_env
        "GlClear GL_COLOR_BUFFER_BIT" "()" "\<lparr>errors = [GL_INVALID_ENUM], trace = []\<rparr>"]
    by (simp add: Let_def l q f drain_events_one [OF e] drain_events_Nil n show_dec_127
          show_hex_INVALID_ENUM spec_error_line_def left_over_def)
qed

text \<open>
  Claim C4, as it is stated, fails for \<^verbatim>\<open>CheckedGLResult\<close>: with an error pending, the
  call of line 101 is the first event, and the pending error is fetched after it.
\<close>

theorem CheckedGLResult_call_comes_first:
  "trace (snd (CheckedGLResult debug_build 101 ''glCreateShader(GL_VERTEX_SHADER)''
                 (glCreateShader quiet_env GL_VERTEX_SHADER)
                 \<lparr>errors = [GL_INVALID_ENUM], trace = []\<rparr>))
   = [Call (GlCreateShader GL_VERTEX_SHADER),
      GetError GL_INVALID_ENUM,
      Stderr ''OpenGL Error in main.cpp at line 101 calling glCreateShader(GL_VERTEX_SHADER): GL_INVALID_ENUM (0x500)\<newline>'',
      GetError GL_NO_ERROR]
   \<and> \<not> drained_before_and_after (GlCreateShader GL_VERTEX_SHADER)
        (trace (snd (CheckedGLResult debug_build 101 ''glCreateShader(GL_VERTEX_SHADER)''
                       (glCreateShader quiet_env GL_VERTEX_SHADER)
                       \<lparr>errors = [GL_INVALID_ENUM], trace = []\<rparr>)))"
proof -
  have d: "debug debug_build"
    by (simp add: debug_build_def)
  have e: "GL_INVALID_ENUM \<noteq> GL_NO_ERROR"
    by (simp add: gl_error_codes)
  have n: "GlErrorToString GL_INVALID_ENUM = ''GL_INVALID_ENUM''"
    by (simp add: GlErrorToString_def gl_error_codes)
  have q: "raised quiet_env tr = []" for tr
    by (simp add: quiet_env_def)
  have f: "source_file debug_build = ''main.cpp''"
    by (simp add: debug_build_def)
  have t: "trace (snd (CheckedGLResult debug_build 101 ''glCreateShader(GL_VERTEX_SHADER)''
                 (glCreateShader quiet_env GL_VERTEX_SHADER)
                 \<lparr>errors = [GL_INVALID_ENUM], trace = []\<rparr>))
   = [Call (GlCreateShader GL_VERTEX_SHADER),
      GetError GL_INVALID_ENUM,
      Stderr ''OpenGL Error in main.cpp at line 101 calling glCreateShader(GL_VERTEX_SHADER): GL_INVALID_ENUM (0x500)\<newline>'',
      GetError GL_NO_ERROR]"
    by (simp add: glCreateShader_def CheckedGLResult_debug [OF d] Let_def q f
          drain_events_one [OF e] n show_dec_101 show_hex_INVALID_ENUM spec_error_line_def)
  show ?thesis
    unfolding t by (simp add: drained_before_and_after_def ends_with_empty_fetch_def)
qed

subsection \<open>The values \<^verbatim>\<open>main\<close> returns\<close>

text \<open>
  Claim C2. \<^verbatim>\<open>main\<close> returns \<open>-1\<close> when \<^verbatim>\<open>glfwInit\<close> fails, when the window is not
  created, and when \<^verbatim>\<open>glewInit\<close> fails; in the last case the last thing it does is to
  call \<^verbatim>\<open>glfwTerminate\<close>. Otherwise it returns \<open>0\<close> when the render loop exits, and
  does not return when the loop does not.
\<close>

theorem main_exit_codes:
  "(glfwInit_result E = 0 \<longrightarrow> (\<exists>s. main E cfg = Some (- 1, s)))
   \<and> (glfwInit_result E \<noteq> 0 \<and> glfwCreateWindow_result E = 0
        \<longrightarrow> (\<exists>s. main E cfg = Some (- 1, s)))
   \<and> (glfwInit_result E \<noteq> 0 \<and> glfwCreateWindow_result E \<noteq> 0 \<and> glewInit_result E \<noteq> GLEW_OK
        \<longrightarrow> (\<exists>s. main E cfg = Some (- 1, s) \<and> last (trace s) = Call GlfwTerminate))
   \<and> (glfwInit_result E \<noteq> 0 \<and> glfwCreateWindow_result E \<noteq> 0 \<and> glewInit_result E = GLEW_OK
        \<longrightarrow> (case render_loop E cfg (glfwCreateWindow_result E) (loop_entry E cfg) of
               None \<Rightarrow> main E cfg = None
             | Some s' \<Rightarrow> (\<exists>s. main E cfg = Some (0, s))))"
proof (intro conjI impI)
  assume "glfwInit_result E = 0"
  then show "\<exists>s. main E cfg = Some (- 1, s)"
    by (simp add: main_eq)
next
  assume "glfwInit_result E \<noteq> 0 \<and> glfwCreateWindow_result E = 0"
  then show "\<exists>s. main E cfg = Some (- 1, s)"
    by (simp add: main_eq)
next
  assume a: "glfwInit_result E \<noteq> 0 \<and> glfwCreateWindow_result E \<noteq> 0
             \<and> glewInit_result E \<noteq> GLEW_OK"
  then have "last (trace (snd (startup E cfg \<lparr>errors = [], trace = []\<rparr>))) = Call GlfwTerminate"
    by (simp add: trace_startup_no_glew)
  with a show "\<exists>s. main E cfg = Some (- 1, s) \<and> last (trace s) = Call GlfwTerminate"
    by (simp add: main_eq)
next
  assume "glfwInit_result E \<noteq> 0 \<and> glfwCreateWindow_result E \<noteq> 0 \<and> glewInit_result E = GLEW_OK"
  then have "started E"
    by (simp add: started_def)
  then show "case render_loop E cfg (glfwCreateWindow_result E) (loop_entry E cfg) of
               None \<Rightarrow> main E cfg = None
             | Some s' \<Rightarrow> (\<exists>s. main E cfg = Some (0, s))"
    by (simp add: main_started split: option.splits)
qed

theorem main_exit_codes_witness:
  "glfwInit_result (quiet_env\<lparr>glfwInit_result := 0\<rparr>) = 0
   \<and> (\<exists>s. main (quiet_env\<lparr>glfwInit_result := 0\<rparr>) release_build = Some (- 1, s))
   \<and> glfwCreateWindow_result (quiet_env\<lparr>glfwCreateWindow_result := 0\<rparr>) = 0
   \<and> (\<exists>s. main (quiet_env\<lparr>glfwCreateWindow_result := 0\<rparr>) release_build = Some (- 1, s))
   \<and> glewInit_result (quiet_env\<lparr>glewInit_result := 1\<rparr>) \<noteq> GLEW_OK
   \<and> (\<exists>s. main (quiet_env\<lparr>glewInit_result := 1\<rparr>) release_build = Some (- 1, s)
          \<and> last (trace s) = Call GlfwTerminate)
   \<and> glewInit_result quiet_env = GLEW_OK
   \<and> (\<exists>s. main quiet_env release_build = Some (0, s))"
proof -
  obtain s' where "render_loop quiet_env release_build (glfwCreateWindow_result quiet_env)
                     (loop_entry quiet_env release_build) = Some s'"
    using quiet_loop_exits by blast
  then show ?thesis
    using main_exit_codes [of "quiet_env\<lparr>glfwInit_result := 0\<rparr>" release_build]
      main_exit_codes [of "quiet_env\<lparr>glfwCreateWindow_result := 0\<rparr>" release_build]
      main_exit_codes [of "quiet_env\<lparr>glewInit_result := 1\<rparr>" release_build]
      main_exit_codes [of quiet_env release_build]
    by (simp add: quiet_env_def GLEW_OK_def)
qed

text \<open>
  Claim C10. When \<^verbatim>\<open>glfwInit\<close> fails, \<^verbatim>\<open>main\<close> returns \<open>-1\<close> and the call of
  \<^verbatim>\<open>glfwInit\<close> is all that happened: nothing is written and \<^verbatim>\<open>glfwTerminate\<close> is not
  called. When the window is not created or \<^verbatim>\<open>glewInit\<close> fails, the run ends with the
  call of \<^verbatim>\<open>glfwTerminate\<close>.
\<close>

theorem glfwInit_failure_is_silent:
  "(glfwInit_result E = 0
      \<longrightarrow> main E cfg = Some (- 1, \<lparr>errors = raised E [Call GlfwInit], trace = [Call GlfwInit]\<rparr>))
   \<and> (glfwInit_result E \<noteq> 0 \<and> glfwCreateWindow_result E = 0
        \<longrightarrow> (\<exists>s. main E cfg = Some (- 1, s)
                 \<and> trace s = map Call ([GlfwInit] @ window_hints cfg
                                       @ [GlfwCreateWindow 640 480 ''Hello World'',
                                          GlfwTerminate])))
   \<and> (glfwInit_result E \<noteq> 0 \<and> glfwCreateWindow_result E \<noteq> 0 \<and> glewInit_result E \<noteq> GLEW_OK
        \<longrightarrow> (\<exists>s. main E cfg = Some (- 1, s)
                 \<and> trace s = map Call ([GlfwInit] @ window_hints cfg
                                       @ [GlfwCreateWindow 640 480 ''Hello World'',
                                          GlfwMakeContextCurrent (glfwCreateWindow_result E),
                                          Set_glewExperimental GL_TRUE, GlewInit,
                                          GlewGetErrorString (glewInit_result E)])
                             @ [Stderr (''GLEW init error: ''
                                        @ glewGetErrorString_result E (glewInit_result E)
                                        @ ''\<newline>''),
                                Call GlfwTerminate]))"
proof (intro conjI impI)
  assume "glfwInit_result E = 0"
  then show "main E cfg = Some (- 1, \<lparr>errors = raised E [Call GlfwInit], trace = [Call GlfwInit]\<rparr>)"
    by (simp add: main_eq snd_startup_no_glfw)
next
  assume a: "glfwInit_result E \<noteq> 0 \<and> glfwCreateWindow_result E = 0"
  then have "trace (snd (startup E cfg \<lparr>errors = [], trace = []\<rparr>))
             = map Call ([GlfwInit] @ window_hints cfg
                         @ [GlfwCreateWindow 640 480 ''Hello World'', GlfwTerminate])"
    using trace_startup_no_window [of E cfg "\<lparr>errors = [], trace = []\<rparr>"] by simp
  with a show "\<exists>s. main E cfg = Some (- 1, s)
                 \<and> trace s = map Call ([GlfwInit] @ window_hints cfg
                                       @ [GlfwCreateWindow 640 480 ''Hello World'',
                                          GlfwTerminate])"
    by (simp add: main_eq)
next
  assume a: "glfwInit_result E \<noteq> 0 \<and> glfwCreateWindow_result E \<noteq> 0
             \<and> glewInit_result E \<noteq> GLEW_OK"
  then have "trace (snd (startup E cfg \<lparr>errors = [], trace = []\<rparr>))
             = map Call ([GlfwInit] @ window_hints cfg
                                       @ [GlfwCreateWindow 640 480 ''Hello World'',
                                          GlfwMakeContextCurrent (glfwCreateWindow_result E),
                                          Set_glewExperimental GL_TRUE, GlewInit,
                                          GlewGetErrorString (glewInit_result E)])
                             @ [Stderr (''GLEW init error: ''
                                        @ glewGetErrorString_result E (glewInit_result E)
                                        @ ''\<newline>''),
                                Call GlfwTerminate]"
    using trace_startup_no_glew [of E cfg "\<lparr>errors = [], trace = []\<rparr>"] by simp
  with a show "\<exists>s. main E cfg = Some (- 1, s)
                 \<and> trace s = map Call ([GlfwInit] @ window_hints cfg
                                       @ [GlfwCreateWindow 640 480 ''Hello World'',
                                          GlfwMakeContextCurrent (glfwCreateWindow_result E),
                                          Set_glewExperimental GL_TRUE, GlewInit,
                                          GlewGetErrorString (glewInit_result E)])
                             @ [Stderr (''GLEW init error: ''
                                        @ glewGetErrorString_result E (glewInit_result E)
                                        @ ''\<newline>''),
                                Call GlfwTerminate]"
    by (simp add: main_eq)
qed

theorem glfwInit_failure_is_silent_witness:
  "glfwInit_result (quiet_env\<lparr>glfwInit_result := 0\<rparr>) = 0
   \<and> main (quiet_env\<lparr>glfwInit_result := 0\<rparr>) debug_build
     = Some (- 1, \<lparr>errors = [], trace = [Call GlfwInit]\<rparr>)
   \<and> glfwCreateWindow_result (quiet_env\<lparr>glfwCreateWindow_result := 0\<rparr>) = 0
   \<and> (\<exists>s. main (quiet_env\<lparr>glfwCreateWindow_result := 0\<rparr>) debug_build = Some (- 1, s)
          \<and> trace s = [Call GlfwInit,
                        Call (GlfwWindowHint GLFW_CONTEXT_VERSION_MAJOR 3),
                        Call (GlfwWindowHint GLFW_CONTEXT_VERSION_MINOR 3),
                        Call (GlfwWindowHint GLFW_OPENGL_PROFILE GLFW_OPENGL_CORE_PROFILE),
                        Call (GlfwCreateWindow 640 480 ''Hello World''),
                        Call GlfwTerminate])
   \<and> glewInit_result (quiet_env\<lparr>glewInit_result := 1\<rparr>) \<noteq> GLEW_OK
   \<and> (\<exists>s. main (quiet_env\<lparr>glewInit_result := 1\<rparr>) debug_build = Some (- 1, s)
          \<and> trace s = [Call GlfwInit,
                        Call (GlfwWindowHint GLFW_CONTEXT_VERSION_MAJOR 3),
                        Call (GlfwWindowHint GLFW_CONTEXT_VERSION_MINOR 3),
                        Call (GlfwWindowHint GLFW_OPENGL_PROFILE GLFW_OPENGL_CORE_PROFILE),
                        Call (GlfwCreateWindow 640 480 ''Hello World''),
                        Call (GlfwMakeContextCurrent 1),
                        Call (Set_glewExperimental GL_TRUE),
                        Call GlewInit,
                        Call (GlewGetErrorString 1),
                        Stderr ''GLEW init error: Missing GL version\<newline>'',
                        Call GlfwTerminate])"
  using glfwInit_failure_is_silent [of "quiet_env\<lparr>glfwInit_result := 0\<rparr>" debug_build]
    glfwInit_failure_is_silent [of "quiet_env\<lparr>glfwCreateWindow_result := 0\<rparr>" debug_build]
    glfwInit_failure_is_silent [of "quiet_env\<lparr>glewInit_result := 1\<rparr>" debug_build]
  by (simp add: quiet_env_def GLEW_OK_def window_hints_def debug_build_def)

subsection \<open>The shaders\<close>

text \<open>
  Claim C6. In the block of each shader, once the compile status is queried, nothing
  more happens when \<^verbatim>\<open>compiled\<close> is not \<open>0\<close>; when it is \<open>0\<close>, the message
  \<open>Vertex shader failed\<close> (\<open>Fragment shader failed\<close> for the fragment shader) is written to
  \<^verbatim>\<open>std::cerr\<close>, then \<^verbatim>\<open>PrintShaderInfoLog\<close> queries the length of the info log and,
  exactly when the length is greater than \<open>1\<close>, fetches the log and writes it under the
  heading \<open>Shader Info Log:\<close>, in this order. A driver that reports the status \<open>0\<close> leaves
  \<open>0\<close> in \<^verbatim>\<open>compiled\<close>, and one that reports another status leaves that status. In a
  run of \<^verbatim>\<open>main\<close> that has started, the two blocks are run between the upload of the
  buffers and the linking of the program, whatever the status: the events up to the
  render loop are those of the start and of lines 88 to 124, \<^verbatim>\<open>main\<close> goes on into the
  render loop and returns \<open>0\<close> exactly when the loop exits, and what such a run has then
  written is these messages and these logs and no other message.
\<close>

theorem shader_compile_reports:
  "(let vs = glCreateShader_result E GL_VERTEX_SHADER;
        compiled = compile_status E vs 0;
        s' = snd (vertex_shader E cfg s)
    in fst (vertex_shader E cfg s) = (vs, compiled)
       \<and> visible (trace s')
         = visible (trace s)
           @ map Call [GlCreateShader GL_VERTEX_SHADER, GlShaderSource vs 1 [VertexShaderSource],
                       GlCompileShader vs, GlGetShaderiv vs GL_COMPILE_STATUS]
           @ (if compiled = 0
              then [Stderr ''Vertex shader failed\<newline>'',
                    Call (GlGetShaderiv vs GL_INFO_LOG_LENGTH)]
                   @ (if 1 < log_length E vs
                      then [Call (GlGetShaderInfoLog vs (log_length E vs)),
                            Stdout (''Shader Info Log:\<newline>''
                                    @ log_buffer E vs (log_length E vs) @ ''\<newline>'')]
                      else [])
              else [])
       \<and> messages (trace s')
         = messages (trace s) @ (if compiled = 0 then [''Vertex shader failed\<newline>''] else [])
       \<and> api_calls (trace s')
         = api_calls (trace s)
           @ [GlCreateShader GL_VERTEX_SHADER, GlShaderSource vs 1 [VertexShaderSource],
              GlCompileShader vs, GlGetShaderiv vs GL_COMPILE_STATUS]
           @ (if compiled = 0
              then GlGetShaderiv vs GL_INFO_LOG_LENGTH
                   # (if 1 < log_length E vs then [GlGetShaderInfoLog vs (log_length E vs)] else [])
              else [])
       \<and> stdout_of (trace s')
         = stdout_of (trace s)
           @ (if compiled = 0 \<and> 1 < log_length E vs
              then [''Shader Info Log:\<newline>'' @ log_buffer E vs (log_length E vs) @ ''\<newline>'']
              else []))
   \<and> (let fs = glCreateShader_result E GL_FRAGMENT_SHADER;
          compiled = compile_status E fs held;
          s' = snd (fragment_shader E cfg held s)
      in fst (fragment_shader E cfg held s) = (fs, compiled)
         \<and> visible (trace s')
           = visible (trace s)
             @ map Call [GlCreateShader GL_FRAGMENT_SHADER,
                         GlShaderSource fs 1 [FragmentShaderSource],
                         GlCompileShader fs, GlGetShaderiv fs GL_COMPILE_STATUS]
             @ (if compiled = 0
                then [Stderr ''Fragment shader failed\<newline>'',
                      Call (GlGetShaderiv fs GL_INFO_LOG_LENGTH)]
                     @ (if 1 < log_length E fs
                        then [Call (GlGetShaderInfoLog fs (log_length E fs)),
                              Stdout (''Shader Info Log:\<newline>''
                                      @ log_buffer E fs (log_length E fs) @ ''\<newline>'')]
                        else [])
                else [])
         \<and> messages (trace s')
           = messages (trace s) @ (if compiled = 0 then [''Fragment shader failed\<newline>''] else [])
         \<and> api_calls (trace s')
           = api_calls (trace s)
             @ [GlCreateShader GL_FRAGMENT_SHADER, GlShaderSource fs 1 [FragmentShaderSource],
                GlCompileShader fs, GlGetShaderiv fs GL_COMPILE_STATUS]
             @ (if compiled = 0
                then GlGetShaderiv fs GL_INFO_LOG_LENGTH
                     # (if 1 < log_length E fs then [GlGetShaderInfoLog fs (log_length E fs)] else [])
                else [])
         \<and> stdout_of (trace s')
           = stdout_of (trace s)
             @ (if compiled = 0 \<and> 1 < log_length E fs
                then [''Shader Info Log:\<newline>'' @ log_buffer E fs (log_length E fs) @ ''\<newline>'']
                else []))
   \<and> (shader_parameter E sh GL_COMPILE_STATUS = Some 0 \<longrightarrow> compile_status E sh before = 0)
   \<and> (shader_parameter E sh GL_COMPILE_STATUS = Some v \<and> v \<noteq> 0 \<longrightarrow> compile_status E sh before \<noteq> 0)
   \<and> visible (trace (snd (build_resources E cfg s))) = visible (trace s) @ build_events E
   \<and> (glfwInit_result E \<noteq> 0 \<and> glfwCreateWindow_result E \<noteq> 0 \<and> glewInit_result E = GLEW_OK
        \<longrightarrow> api_calls (trace (loop_entry E cfg)) = startup_calls E cfg @ build_calls E
            \<and> (main E cfg = None \<or> (\<exists>sf. main E cfg = Some (0, sf)))
            \<and> visible (trace (loop_entry E cfg)) = map Call (startup_calls E cfg) @ build_events E
            \<and> main E cfg
              = (case render_loop E cfg (glfwCreateWindow_result E) (loop_entry E cfg) of
                   None \<Rightarrow> None
                 | Some s' \<Rightarrow>
                     Some (0, teardown E cfg (glCreateProgram_result E)
                                (glCreateShader_result E GL_FRAGMENT_SHADER)
                                (glCreateShader_result E GL_VERTEX_SHADER)
                                (generated E Addr_EBO) (generated E Addr_VBO)
                                (generated E Addr_VAO) s'))
            \<and> (\<forall>r sf. main E cfg = Some (r, sf) \<longrightarrow>
                 (let vs = glCreateShader_result E GL_VERTEX_SHADER;
                      fs = glCreateShader_result E GL_FRAGMENT_SHADER;
                      cv = compile_status E vs 0;
                      cf = compile_status E fs cv
                  in r = 0
                     \<and> messages (trace sf)
                       = (if cv = 0 then [''Vertex shader failed\<newline>''] else [])
                         @ (if cf = 0 then [''Fragment shader failed\<newline>''] else [])
                     \<and> stdout_of (trace sf)
                       = (if cv = 0 \<and> 1 < log_length E vs
                          then [''Shader Info Log:\<newline>''
                                @ log_buffer E vs (log_length E vs) @ ''\<newline>'']
                          else [])
                         @ (if cf = 0 \<and> 1 < log_length E fs
                            then [''Shader Info Log:\<newline>''
                                  @ log_buffer E fs (log_length E fs) @ ''\<newline>'']
                            else [])
                     \<and> (\<exists>k. visible (trace sf)
                            = map Call (startup_calls E cfg) @ build_events E
                              @ map Call
                                  (concat (replicate k
                                     (GlfwWindowShouldClose (glfwCreateWindow_result E)
                                      # frame_calls_of (glfwCreateWindow_result E)))
                                   @ [GlfwWindowShouldClose (glfwCreateWindow_result E)]
                                   @ teardown_calls_of E)))))"
proof -
  have vertex: "let vs = glCreateShader_result E GL_VERTEX_SHADER;
        compiled = compile_status E vs 0;
        s' = snd (vertex_shader E cfg s)
    in fst (vertex_shader E cfg s) = (vs, compiled)
       \<and> visible (trace s')
         = visible (trace s)
           @ map Call [GlCreateShader GL_VERTEX_SHADER, GlShaderSource vs 1 [VertexShaderSource],
                       GlCompileShader vs, GlGetShaderiv vs GL_COMPILE_STATUS]
           @ (if compiled = 0
              then [Stderr ''Vertex shader failed\<newline>'',
                    Call (GlGetShaderiv vs GL_INFO_LOG_LENGTH)]
                   @ (if 1 < log_length E vs
                      then [Call (GlGetShaderInfoLog vs (log_length E vs)),
                            Stdout (''Shader Info Log:\<newline>''
                                    @ log_buffer E vs (log_length E vs) @ ''\<newline>'')]
                      else [])
              else [])
       \<and> messages (trace s')
         = messages (trace s) @ (if compiled = 0 then [''Vertex shader failed\<newline>''] else [])
       \<and> api_calls (trace s')
         = api_calls (trace s)
           @ [GlCreateShader GL_VERTEX_SHADER, GlShaderSource vs 1 [VertexShaderSource],
              GlCompileShader vs, GlGetShaderiv vs GL_COMPILE_STATUS]
           @ (if compiled = 0
              then GlGetShaderiv vs GL_INFO_LOG_LENGTH
                   # (if 1 < log_length E vs then [GlGetShaderInfoLog vs (log_length E vs)] else [])
              else [])
       \<and> stdout_of (trace s')
         = stdout_of (trace s)
           @ (if compiled = 0 \<and> 1 < log_length E vs
              then [''Shader Info Log:\<newline>'' @ log_buffer E vs (log_length E vs) @ ''\<newline>'']
              else [])"
    by (simp add: Let_def fst_vertex_shader messages_vertex_shader api_calls_vertex_shader
          stdout_of_vertex_shader visible_vertex_shader shader_report_def info_log_calls_def
          info_log_output_def)
  have fragment: "let fs = glCreateShader_result E GL_FRAGMENT_SHADER;
          compiled = compile_status E fs held;
          s' = snd (fragment_shader E cfg held s)
      in fst (fragment_shader E cfg held s) = (fs, compiled)
         \<and> visible (trace s')
           = visible (trace s)
             @ map Call [GlCreateShader GL_FRAGMENT_SHADER,
                         GlShaderSource fs 1 [FragmentShaderSource],
                         GlCompileShader fs, GlGetShaderiv fs GL_COMPILE_STATUS]
             @ (if compiled = 0
                then [Stderr ''Fragment shader failed\<newline>'',
                      Call (GlGetShaderiv fs GL_INFO_LOG_LENGTH)]
                     @ (if 1 < log_length E fs
                        then [Call (GlGetShaderInfoLog fs (log_length E fs)),
                              Stdout (''Shader Info Log:\<newline>''
                                      @ log_buffer E fs (log_length E fs) @ ''\<newline>'')]
                        else [])
                else [])
         \<and> messages (trace s')
           = messages (trace s) @ (if compiled = 0 then [''Fragment shader failed\<newline>''] else [])
         \<and> api_calls (trace s')
           = api_calls (trace s)
             @ [GlCreateShader GL_FRAGMENT_SHADER, GlShaderSource fs 1 [FragmentShaderSource],
                GlCompileShader fs, GlGetShaderiv fs GL_COMPILE_STATUS]
             @ (if compiled = 0
                then GlGetShaderiv fs GL_INFO_LOG_LENGTH
                     # (if 1 < log_length E fs then [GlGetShaderInfoLog fs (log_length E fs)] else [])
                else [])
         \<and> stdout_of (trace s')
           = stdout_of (trace s)
             @ (if compiled = 0 \<and> 1 < log_length E fs
                then [''Shader Info Log:\<newline>'' @ log_buffer E fs (log_length E fs) @ ''\<newline>'']
                else [])"
    by (simp add: Let_def fst_fragment_shader messages_fragment_shader api_calls_fragment_shader
          stdout_of_fragment_shader visible_fragment_shader shader_report_def info_log_calls_def
          info_log_output_def)
  have zero: "shader_parameter E sh GL_COMPILE_STATUS = Some 0 \<longrightarrow> compile_status E sh before = 0"
    by (simp add: compile_status_def)
  have nonzero: "shader_parameter E sh GL_COMPILE_STATUS = Some v \<and> v \<noteq> 0
                 \<longrightarrow> compile_status E sh before \<noteq> 0"
    by (simp add: compile_status_def)
  have build: "visible (trace (snd (build_resources E cfg s))) = visible (trace s) @ build_events E"
    by (rule visible_build_resources)
  have run: "api_calls (trace (loop_entry E cfg)) = startup_calls E cfg @ build_calls E
            \<and> (main E cfg = None \<or> (\<exists>sf. main E cfg = Some (0, sf)))
            \<and> visible (trace (loop_entry E cfg)) = map Call (startup_calls E cfg) @ build_events E
            \<and> main E cfg
              = (case render_loop E cfg (glfwCreateWindow_result E) (loop_entry E cfg) of
                   None \<Rightarrow> None
                 | Some s' \<Rightarrow>
                     Some (0, teardown E cfg (glCreateProgram_result E)
                                (glCreateShader_result E GL_FRAGMENT_SHADER)
                                (glCreateShader_result E GL_VERTEX_SHADER)
                                (generated E Addr_EBO) (generated E Addr_VBO)
                                (generated E Addr_VAO) s'))
            \<and> (\<forall>r sf. main E cfg = Some (r, sf) \<longrightarrow>
                 (let vs = glCreateShader_result E GL_VERTEX_SHADER;
                      fs = glCreateShader_result E GL_FRAGMENT_SHADER;
                      cv = compile_status E vs 0;
                      cf = compile_status E fs cv
                  in r = 0
                     \<and> messages (trace sf)
                       = (if cv = 0 then [''Vertex shader failed\<newline>''] else [])
                         @ (if cf = 0 then [''Fragment shader failed\<newline>''] else [])
                     \<and> stdout_of (trace sf)
                       = (if cv = 0 \<and> 1 < log_length E vs
                          then [''Shader Info Log:\<newline>''
                                @ log_buffer E vs (log_length E vs) @ ''\<newline>'']
                          else [])
                         @ (if cf = 0 \<and> 1 < log_length E fs
                            then [''Shader Info Log:\<newline>''
                                  @ log_buffer E fs (log_length E fs) @ ''\<newline>'']
                            else [])
                     \<and> (\<exists>k. visible (trace sf)
                            = map Call (startup_calls E cfg) @ build_events E
                              @ map Call
                                  (concat (replicate k
                                     (GlfwWindowShouldClose (glfwCreateWindow_result E)
                                      # frame_calls_of (glfwCreateWindow_result E)))
                                   @ [GlfwWindowShouldClose (glfwCreateWindow_result E)]
                                   @ teardown_calls_of E))))"
    if ok: "glfwInit_result E \<noteq> 0 \<and> glfwCreateWindow_result E \<noteq> 0 \<and> glewInit_result E = GLEW_OK"
  proof -
    from ok have st: "started E"
      by (simp add: started_def)
    have a: "api_calls (trace (loop_entry E cfg)) = startup_calls E cfg @ build_calls E"
      by (rule api_calls_loop_entry [OF st])
    have b: "main E cfg = None \<or> (\<exists>sf. main E cfg = Some (0, sf))"
      using st by (simp add: main_started split: option.splits)
    have c: "visible (trace (loop_entry E cfg)) = map Call (startup_calls E cfg) @ build_events E"
      by (rule visible_loop_entry [OF st])
    have d: "main E cfg
              = (case render_loop E cfg (glfwCreateWindow_result E) (loop_entry E cfg) of
                   None \<Rightarrow> None
                 | Some s' \<Rightarrow>
                     Some (0, teardown E cfg (glCreateProgram_result E)
                                (glCreateShader_result E GL_FRAGMENT_SHADER)
                                (glCreateShader_result E GL_VERTEX_SHADER)
                                (generated E Addr_EBO) (generated E Addr_VBO)
                                (generated E Addr_VAO) s'))"
      by (rule main_started [OF st])
    have e: "let vs = glCreateShader_result E GL_VERTEX_SHADER;
                      fs = glCreateShader_result E GL_FRAGMENT_SHADER;
                      cv = compile_status E vs 0;
                      cf = compile_status E fs cv
                  in r = 0
                     \<and> messages (trace sf)
                       = (if cv = 0 then [''Vertex shader failed\<newline>''] else [])
                         @ (if cf = 0 then [''Fragment shader failed\<newline>''] else [])
                     \<and> stdout_of (trace sf)
                       = (if cv = 0 \<and> 1 < log_length E vs
                          then [''Shader Info Log:\<newline>''
                                @ log_buffer E vs (log_length E vs) @ ''\<newline>'']
                          else [])
                         @ (if cf = 0 \<and> 1 < log_length E fs
                            then [''Shader Info Log:\<newline>''
                                  @ log_buffer E fs (log_length E fs) @ ''\<newline>'']
                            else [])
                     \<and> (\<exists>k. visible (trace sf)
                            = map Call (startup_calls E cfg) @ build_events E
                              @ map Call
                                  (concat (replicate k
                                     (GlfwWindowShouldClose (glfwCreateWindow_result E)
                                      # frame_calls_of (glfwCreateWindow_result E)))
                                   @ [GlfwWindowShouldClose (glfwCreateWindow_result E)]
                                   @ teardown_calls_of E))"
      if m: "main E cfg = Some (r, sf)" for r sf
      using main_events [OF st m] main_output [OF st m]
      by (simp add: Let_def messages_build_events stdout_of_build_events info_log_output_def)
    from a b c d e show ?thesis
      by blast
  qed
  from vertex fragment zero nonzero build run show ?thesis
    by blast
qed

theorem shader_compile_reports_witness:
  "shader_parameter failing_shaders_env 1 GL_COMPILE_STATUS = Some 0
   \<and> compile_status failing_shaders_env 1 0 = 0
   \<and> visible (trace (snd (vertex_shader failing_shaders_env debug_build \<lparr>errors = [], trace = []\<rparr>)))
     = [Call (GlCreateShader GL_VERTEX_SHADER), Call (GlShaderSource 1 1 [VertexShaderSource]),
        Call (GlCompileShader 1), Call (GlGetShaderiv 1 GL_COMPILE_STATUS),
        Stderr ''Vertex shader failed\<newline>'',
        Call (GlGetShaderiv 1 GL_INFO_LOG_LENGTH),
        Call (GlGetShaderInfoLog 1 6),
        Stdout (''Shader Info Log:\<newline>error'' @ [CHR 0x00] @ ''\<newline>'')]
   \<and> shader_parameter quiet_env 2 GL_COMPILE_STATUS = Some 1
   \<and> messages (trace (snd (fragment_shader quiet_env debug_build 1 \<lparr>errors = [], trace = []\<rparr>))) = []
   \<and> glfwInit_result failing_shaders_env \<noteq> 0
   \<and> glfwCreateWindow_result failing_shaders_env \<noteq> 0
   \<and> glewInit_result failing_shaders_env = GLEW_OK
   \<and> (\<exists>sf. main failing_shaders_env debug_build = Some (0, sf)
          \<and> messages (trace sf)
            = [''Vertex shader failed\<newline>'', ''Fragment shader failed\<newline>'']
          \<and> stdout_of (trace sf)
            = [''Shader Info Log:\<newline>error'' @ [CHR 0x00] @ ''\<newline>'',
               ''Shader Info Log:\<newline>error'' @ [CHR 0x00] @ ''\<newline>''])"
proof -
  have vs: "glCreateShader_result failing_shaders_env GL_VERTEX_SHADER = 1"
    "glCreateShader_result failing_shaders_env GL_FRAGMENT_SHADER = 2"
    and fs: "glCreateShader_result quiet_env GL_FRAGMENT_SHADER = 2"
    by (simp_all add: failing_shaders_env_def quiet_env_def GL_VERTEX_SHADER_def
          GL_FRAGMENT_SHADER_def)
  have p: "shader_parameter failing_shaders_env sh GL_COMPILE_STATUS = Some 0"
    "shader_parameter failing_shaders_env sh GL_INFO_LOG_LENGTH = Some 6"
    "shader_parameter quiet_env 2 GL_COMPILE_STATUS = Some 1" for sh
    by (simp_all add: failing_shaders_env_def quiet_env_def GL_COMPILE_STATUS_def
          GL_INFO_LOG_LENGTH_def)
  have l: "log_length failing_shaders_env sh = 6" for sh
    by (simp add: log_length_def p)
  have b: "log_buffer failing_shaders_env sh 6 = ''error'' @ [CHR 0x00]" for sh
    by (simp add: log_buffer_def failing_shaders_env_def)
  have g: "glfwInit_result failing_shaders_env \<noteq> 0"
    "glfwCreateWindow_result failing_shaders_env \<noteq> 0"
    "glewInit_result failing_shaders_env = GLEW_OK"
    by (simp_all add: failing_shaders_env_def quiet_env_def)
  obtain s' where "render_loop failing_shaders_env debug_build
      (glfwCreateWindow_result failing_shaders_env) (loop_entry failing_shaders_env debug_build)
      = Some s'"
    using failing_loop_exits by blast
  then obtain sf where m: "main failing_shaders_env debug_build = Some (0, sf)"
    by (simp add: main_started)
  note t1 = shader_compile_reports [where E = failing_shaders_env and cfg = debug_build
        and s = "\<lparr>errors = [], trace = []\<rparr>" and held = 1 and sh = 1 and before = 0 and v = 0]
  note t2 = shader_compile_reports [where E = quiet_env and cfg = debug_build
        and s = "\<lparr>errors = [], trace = []\<rparr>" and held = 1 and sh = 2 and before = 0 and v = 1]
  have run: "messages (trace sf)
            = [''Vertex shader failed\<newline>'', ''Fragment shader failed\<newline>'']
          \<and> stdout_of (trace sf)
            = [''Shader Info Log:\<newline>error'' @ [CHR 0x00] @ ''\<newline>'',
               ''Shader Info Log:\<newline>error'' @ [CHR 0x00] @ ''\<newline>'']"
    using t1 g m by (simp add: Let_def vs p l b compile_status_def)
  have blocks: "shader_parameter failing_shaders_env 1 GL_COMPILE_STATUS = Some 0
   \<and> compile_status failing_shaders_env 1 0 = 0
   \<and> visible (trace (snd (vertex_shader failing_shaders_env debug_build \<lparr>errors = [], trace = []\<rparr>)))
     = [Call (GlCreateShader GL_VERTEX_SHADER), Call (GlShaderSource 1 1 [VertexShaderSource]),
        Call (GlCompileShader 1), Call (GlGetShaderiv 1 GL_COMPILE_STATUS),
        Stderr ''Vertex shader failed\<newline>'',
        Call (GlGetShaderiv 1 GL_INFO_LOG_LENGTH),
        Call (GlGetShaderInfoLog 1 6),
        Stdout (''Shader Info Log:\<newline>error'' @ [CHR 0x00] @ ''\<newline>'')]
   \<and> shader_parameter quiet_env 2 GL_COMPILE_STATUS = Some 1
   \<and> messages (trace (snd (fragment_shader quiet_env debug_build 1 \<lparr>errors = [], trace = []\<rparr>))) = []"
    using t1 t2 by (simp add: Let_def vs fs p l b compile_status_def)
  from blocks g m run show ?thesis
    by blast
qed

subsection \<open>The render loop\<close>

text \<open>
  Claim C7. An iteration of the render loop clears the colour buffer, draws three
  indices as triangles with the index type \<^verbatim>\<open>GL_UNSIGNED_INT\<close> from offset \<open>0\<close>, swaps
  the buffers and polls the events, in this order. The loop exits exactly when the
  window reports a close request at the head of an iteration, after the \<open>k\<close> iterations
  at whose heads it reported none; it runs for ever exactly when the window never
  reports one.
\<close>

theorem render_loop_iterations:
  "api_calls (trace (frame E cfg window s))
   = api_calls (trace s)
     @ [GlClear GL_COLOR_BUFFER_BIT, GlDrawElements GL_TRIANGLES 3 GL_UNSIGNED_INT 0,
        GlfwSwapBuffers window, GlfwPollEvents]
   \<and> (render_loop E cfg window s = Some s'
      \<longleftrightarrow> (\<exists>k. close_requested E window (run_frames E cfg window k s)
               \<and> (\<forall>j<k. \<not> close_requested E window (run_frames E cfg window j s))
               \<and> s' = snd (glfwWindowShouldClose E window (run_frames E cfg window k s))))
   \<and> (render_loop E cfg window s = None
      \<longleftrightarrow> (\<forall>k. \<not> close_requested E window (run_frames E cfg window k s)))
   \<and> api_calls (trace (run_frames E cfg window k s))
     = api_calls (trace s)
       @ concat (replicate k
           [GlfwWindowShouldClose window, GlClear GL_COLOR_BUFFER_BIT,
            GlDrawElements GL_TRIANGLES 3 GL_UNSIGNED_INT 0, GlfwSwapBuffers window,
            GlfwPollEvents])"
proof (intro conjI)
  show "api_calls (trace (frame E cfg window s))
   = api_calls (trace s)
     @ [GlClear GL_COLOR_BUFFER_BIT, GlDrawElements GL_TRIANGLES 3 GL_UNSIGNED_INT 0,
        GlfwSwapBuffers window, GlfwPollEvents]"
    by (rule frame_calls)
  show "render_loop E cfg window s = Some s'
      \<longleftrightarrow> (\<exists>k. close_requested E window (run_frames E cfg window k s)
               \<and> (\<forall>j<k. \<not> close_requested E window (run_frames E cfg window j s))
               \<and> s' = snd (glfwWindowShouldClose E window (run_frames E cfg window k s)))"
    using render_loop_returns [of E cfg window s s'] render_loop_exits [of E window cfg _ s]
    by blast
  show "render_loop E cfg window s = None
      \<longleftrightarrow> (\<forall>k. \<not> close_requested E window (run_frames E cfg window k s))"
    by (rule render_loop_never)
  show "api_calls (trace (run_frames E cfg window k s))
     = api_calls (trace s)
       @ concat (replicate k
           [GlfwWindowShouldClose window, GlClear GL_COLOR_BUFFER_BIT,
            GlDrawElements GL_TRIANGLES 3 GL_UNSIGNED_INT 0, GlfwSwapBuffers window,
            GlfwPollEvents])"
    by (rule api_calls_run_frames)
qed

theorem render_loop_iterations_witness:
  "render_loop quiet_env release_build 1 \<lparr>errors = [], trace = []\<rparr>
   = Some \<lparr>errors = [],
           trace = [Call (GlfwWindowShouldClose 1), Call (GlClear GL_COLOR_BUFFER_BIT),
                    Call (GlDrawElements GL_TRIANGLES 3 GL_UNSIGNED_INT 0),
                    Call (GlfwSwapBuffers 1), Call GlfwPollEvents,
                    Call (GlfwWindowShouldClose 1)]\<rparr>"
proof -
  let ?s0 = "\<lparr>errors = [], trace = []\<rparr> :: state"
  let ?s1 = "snd (glfwWindowShouldClose quiet_env 1 (run_frames quiet_env release_build 1 1 ?s0))"
  have "close_requested quiet_env 1 (run_frames quiet_env release_build 1 1 ?s0)
        \<and> (\<forall>j<1. \<not> close_requested quiet_env 1 (run_frames quiet_env release_build 1 j ?s0))"
    by (simp add: close_after_poll [OF quiet_closes] frame_calls)
  then have "\<exists>k. close_requested quiet_env 1 (run_frames quiet_env release_build 1 k ?s0)
        \<and> (\<forall>j<k. \<not> close_requested quiet_env 1 (run_frames quiet_env release_build 1 j ?s0))
        \<and> ?s1 = snd (glfwWindowShouldClose quiet_env 1 (run_frames quiet_env release_build 1 k ?s0))"
    by (intro exI [of _ 1]) simp
  with render_loop_iterations [of quiet_env release_build 1 ?s0 ?s1]
  have "render_loop quiet_env release_build 1 ?s0 = Some ?s1"
    by blast
  moreover have "raised quiet_env tr = []" for tr
    by (simp add: quiet_env_def)
  then have "?s1 = \<lparr>errors = [],
           trace = [Call (GlfwWindowShouldClose 1), Call (GlClear GL_COLOR_BUFFER_BIT),
                    Call (GlDrawElements GL_TRIANGLES 3 GL_UNSIGNED_INT 0),
                    Call (GlfwSwapBuffers 1), Call GlfwPollEvents,
                    Call (GlfwWindowShouldClose 1)]\<rparr>"
    by (simp add: glfwWindowShouldClose_def frame_def CheckedGLCall_def release_build_def
          gl_calls glfw_calls call_def ext_def Let_def)
  ultimately show ?thesis
    by simp
qed

subsection \<open>The teardown\<close>

text \<open>
  Claim C8. The teardown deletes the program, the fragment shader, the vertex shader,
  the index buffer, the vertex buffer and the vertex array object, in this order, and
  then terminates GLFW, which is the last thing that happens. When the render loop
  exits, \<^verbatim>\<open>main\<close> runs the teardown on the handles the run created and returns \<open>0\<close>.
\<close>

theorem teardown_order:
  "api_calls (trace (teardown E cfg prog fs vs EBO VBO VAO s))
   = api_calls (trace s)
     @ [GlDeleteProgram prog, GlDeleteShader fs, GlDeleteShader vs, GlDeleteBuffers 1 [EBO],
        GlDeleteBuffers 1 [VBO], GlDeleteVertexArrays 1 [VAO], GlfwTerminate]
   \<and> last (trace (teardown E cfg prog fs vs EBO VBO VAO s)) = Call GlfwTerminate
   \<and> (glfwInit_result E \<noteq> 0 \<and> glfwCreateWindow_result E \<noteq> 0 \<and> glewInit_result E = GLEW_OK
       \<and> render_loop E cfg (glfwCreateWindow_result E) (loop_entry E cfg) = Some s'
        \<longrightarrow> main E cfg
            = Some (0, teardown E cfg (glCreateProgram_result E)
                         (glCreateShader_result E GL_FRAGMENT_SHADER)
                         (glCreateShader_result E GL_VERTEX_SHADER)
                         (generated E Addr_EBO) (generated E Addr_VBO) (generated E Addr_VAO) s'))
   \<and> (glfwInit_result E \<noteq> 0 \<and> glfwCreateWindow_result E \<noteq> 0 \<and> glewInit_result E = GLEW_OK
       \<and> main E cfg = Some (r, sf)
        \<longrightarrow> r = 0
            \<and> (\<exists>k. api_calls (trace sf)
                   = startup_calls E cfg @ build_calls E
                     @ concat (replicate k (GlfwWindowShouldClose (glfwCreateWindow_result E)
                                            # frame_calls_of (glfwCreateWindow_result E)))
                     @ [GlfwWindowShouldClose (glfwCreateWindow_result E)]
                     @ [GlDeleteProgram (glCreateProgram_result E),
                        GlDeleteShader (glCreateShader_result E GL_FRAGMENT_SHADER),
                        GlDeleteShader (glCreateShader_result E GL_VERTEX_SHADER),
                        GlDeleteBuffers 1 [generated E Addr_EBO],
                        GlDeleteBuffers 1 [generated E Addr_VBO],
                        GlDeleteVertexArrays 1 [generated E Addr_VAO],
                        GlfwTerminate]))"
proof (intro conjI impI)
  show "api_calls (trace (teardown E cfg prog fs vs EBO VBO VAO s))
   = api_calls (trace s)
     @ [GlDeleteProgram prog, GlDeleteShader fs, GlDeleteShader vs, GlDeleteBuffers 1 [EBO],
        GlDeleteBuffers 1 [VBO], GlDeleteVertexArrays 1 [VAO], GlfwTerminate]"
    by (rule teardown_calls)
  show "last (trace (teardown E cfg prog fs vs EBO VBO VAO s)) = Call GlfwTerminate"
    by (rule last_teardown)
next
  assume "glfwInit_result E \<noteq> 0 \<and> glfwCreateWindow_result E \<noteq> 0 \<and> glewInit_result E = GLEW_OK
       \<and> render_loop E cfg (glfwCreateWindow_result E) (loop_entry E cfg) = Some s'"
  then show "main E cfg
            = Some (0, teardown E cfg (glCreateProgram_result E)
                         (glCreateShader_result E GL_FRAGMENT_SHADER)
                         (glCreateShader_result E GL_VERTEX_SHADER)
                         (generated E Addr_EBO) (generated E Addr_VBO) (generated E Addr_VAO) s')"
    by (simp add: main_started started_def)
next
  assume a: "glfwInit_result E \<noteq> 0 \<and> glfwCreateWindow_result E \<noteq> 0 \<and> glewInit_result E = GLEW_OK
       \<and> main E cfg = Some (r, sf)"
  then have "started E" and "main E cfg = Some (r, sf)"
    by (simp_all add: started_def)
  from main_calls [OF this] show "r = 0"
    and "\<exists>k. api_calls (trace sf)
                   = startup_calls E cfg @ build_calls E
                     @ concat (replicate k (GlfwWindowShouldClose (glfwCreateWindow_result E)
                                            # frame_calls_of (glfwCreateWindow_result E)))
                     @ [GlfwWindowShouldClose (glfwCreateWindow_result E)]
                     @ [GlDeleteProgram (glCreateProgram_result E),
                        GlDeleteShader (glCreateShader_result E GL_FRAGMENT_SHADER),
                        GlDeleteShader (glCreateShader_result E GL_VERTEX_SHADER),
                        GlDeleteBuffers 1 [generated E Addr_EBO],
                        GlDeleteBuffers 1 [generated E Addr_VBO],
                        GlDeleteVertexArrays 1 [generated E Addr_VAO],
                        GlfwTerminate]"
    by (simp_all add: teardown_calls_of_def)
qed

theorem teardown_order_witness:
  "glfwInit_result quiet_env \<noteq> 0 \<and> glfwCreateWindow_result quiet_env \<noteq> 0
   \<and> glewInit_result quiet_env = GLEW_OK
   \<and> (\<exists>s'. render_loop quiet_env debug_build 1 (loop_entry quiet_env debug_build) = Some s'
          \<and> main quiet_env debug_build = Some (0, teardown quiet_env debug_build 3 2 1 2 1 1 s')
          \<and> api_calls (trace (teardown quiet_env debug_build 3 2 1 2 1 1 s'))
            = api_calls (trace s')
              @ [GlDeleteProgram 3, GlDeleteShader 2, GlDeleteShader 1, GlDeleteBuffers 1 [2],
                 GlDeleteBuffers 1 [1], GlDeleteVertexArrays 1 [1], GlfwTerminate])"
proof -
  obtain s' where l: "render_loop quiet_env debug_build 1 (loop_entry quiet_env debug_build) = Some s'"
    using quiet_loop_exits by blast
  have h: "glCreateProgram_result quiet_env = 3"
    "glCreateShader_result quiet_env GL_FRAGMENT_SHADER = 2"
    "glCreateShader_result quiet_env GL_VERTEX_SHADER = 1"
    "generated quiet_env Addr_EBO = 2" "generated quiet_env Addr_VBO = 1"
    "generated quiet_env Addr_VAO = 1" "glfwCreateWindow_result quiet_env = 1"
    "glfwInit_result quiet_env \<noteq> 0" "glewInit_result quiet_env = GLEW_OK"
    by (simp_all add: quiet_env_def GL_FRAGMENT_SHADER_def GL_VERTEX_SHADER_def)
  from teardown_order [of quiet_env debug_build 3 2 1 2 1 1 s' s' 0 s'] l h
  have "main quiet_env debug_build = Some (0, teardown quiet_env debug_build 3 2 1 2 1 1 s')"
    and "api_calls (trace (teardown quiet_env debug_build 3 2 1 2 1 1 s'))
            = api_calls (trace s')
              @ [GlDeleteProgram 3, GlDeleteShader 2, GlDeleteShader 1, GlDeleteBuffers 1 [2],
                 GlDeleteBuffers 1 [1], GlDeleteVertexArrays 1 [1], GlfwTerminate]"
    by simp_all
  with l h show ?thesis
    by auto
qed

subsection \<open>The uploaded data\<close>

text \<open>
  Claim C9. The buffer bound to \<^verbatim>\<open>GL_ARRAY_BUFFER\<close> receives the six floats
  \<open>0.0, 0.5, 0.5, -0.5, -0.5, -0.5\<close> (24 bytes), the buffer bound to
  \<^verbatim>\<open>GL_ELEMENT_ARRAY_BUFFER\<close> receives the three indices \<open>0, 1, 2\<close> (12 bytes), both with
  \<^verbatim>\<open>GL_STATIC_DRAW\<close>, and a run uploads nothing else.
\<close>

theorem uploaded_data:
  "fst (upload_buffers E cfg s) = (generated E Addr_VAO, generated E Addr_VBO, generated E Addr_EBO)
   \<and> api_calls (trace (snd (upload_buffers E cfg s)))
     = api_calls (trace s)
       @ [GlGenVertexArrays 1 Addr_VAO,
          GlBindVertexArray (generated E Addr_VAO),
          GlGenBuffers 1 Addr_VBO,
          GlBindBuffer GL_ARRAY_BUFFER (generated E Addr_VBO),
          GlBufferData GL_ARRAY_BUFFER 24 (Floats [0.0, 0.5, 0.5, - 0.5, - 0.5, - 0.5])
            GL_STATIC_DRAW,
          GlBindBuffer GL_ARRAY_BUFFER 0,
          GlGenBuffers 1 Addr_EBO,
          GlBindBuffer GL_ELEMENT_ARRAY_BUFFER (generated E Addr_EBO),
          GlBufferData GL_ELEMENT_ARRAY_BUFFER 12 (UInts [0, 1, 2]) GL_STATIC_DRAW]
   \<and> (glfwInit_result E \<noteq> 0 \<and> glfwCreateWindow_result E \<noteq> 0 \<and> glewInit_result E = GLEW_OK
        \<longrightarrow> filter is_upload (api_calls (trace (loop_entry E cfg)))
            = [GlBufferData GL_ARRAY_BUFFER 24 (Floats [0.0, 0.5, 0.5, - 0.5, - 0.5, - 0.5])
                 GL_STATIC_DRAW,
               GlBufferData GL_ELEMENT_ARRAY_BUFFER 12 (UInts [0, 1, 2]) GL_STATIC_DRAW])
   \<and> (glfwInit_result E \<noteq> 0 \<and> glfwCreateWindow_result E \<noteq> 0 \<and> glewInit_result E = GLEW_OK
       \<and> main E cfg = Some (r, sf)
        \<longrightarrow> filter is_upload (api_calls (trace sf))
            = [GlBufferData GL_ARRAY_BUFFER 24 (Floats [0.0, 0.5, 0.5, - 0.5, - 0.5, - 0.5])
                 GL_STATIC_DRAW,
               GlBufferData GL_ELEMENT_ARRAY_BUFFER 12 (UInts [0, 1, 2]) GL_STATIC_DRAW])"
proof (intro conjI impI)
  show "fst (upload_buffers E cfg s)
        = (generated E Addr_VAO, generated E Addr_VBO, generated E Addr_EBO)"
    by (rule fst_upload_buffers)
  show "api_calls (trace (snd (upload_buffers E cfg s)))
     = api_calls (trace s)
       @ [GlGenVertexArrays 1 Addr_VAO,
          GlBindVertexArray (generated E Addr_VAO),
          GlGenBuffers 1 Addr_VBO,
          GlBindBuffer GL_ARRAY_BUFFER (generated E Addr_VBO),
          GlBufferData GL_ARRAY_BUFFER 24 (Floats [0.0, 0.5, 0.5, - 0.5, - 0.5, - 0.5])
            GL_STATIC_DRAW,
          GlBindBuffer GL_ARRAY_BUFFER 0,
          GlGenBuffers 1 Addr_EBO,
          GlBindBuffer GL_ELEMENT_ARRAY_BUFFER (generated E Addr_EBO),
          GlBufferData GL_ELEMENT_ARRAY_BUFFER 12 (UInts [0, 1, 2]) GL_STATIC_DRAW]"
    by (simp add: api_calls_upload_buffers)
next
  assume "glfwInit_result E \<noteq> 0 \<and> glfwCreateWindow_result E \<noteq> 0 \<and> glewInit_result E = GLEW_OK"
  then have "started E"
    by (simp add: started_def)
  then show "filter is_upload (api_calls (trace (loop_entry E cfg)))
            = [GlBufferData GL_ARRAY_BUFFER 24 (Floats [0.0, 0.5, 0.5, - 0.5, - 0.5, - 0.5])
                 GL_STATIC_DRAW,
               GlBufferData GL_ELEMENT_ARRAY_BUFFER 12 (UInts [0, 1, 2]) GL_STATIC_DRAW]"
    by (simp add: api_calls_loop_entry uploads_build_calls uploads_elsewhere)
next
  assume "glfwInit_result E \<noteq> 0 \<and> glfwCreateWindow_result E \<noteq> 0 \<and> glewInit_result E = GLEW_OK
       \<and> main E cfg = Some (r, sf)"
  then have "started E" and "main E cfg = Some (r, sf)"
    by (simp_all add: started_def)
  from main_calls [OF this] obtain k where
    "api_calls (trace sf)
     = startup_calls E cfg @ build_calls E
       @ concat (replicate k (GlfwWindowShouldClose (glfwCreateWindow_result E)
                              # frame_calls_of (glfwCreateWindow_result E)))
       @ [GlfwWindowShouldClose (glfwCreateWindow_result E)] @ teardown_calls_of E"
    by blast
  then show "filter is_upload (api_calls (trace sf))
            = [GlBufferData GL_ARRAY_BUFFER 24 (Floats [0.0, 0.5, 0.5, - 0.5, - 0.5, - 0.5])
                 GL_STATIC_DRAW,
               GlBufferData GL_ELEMENT_ARRAY_BUFFER 12 (UInts [0, 1, 2]) GL_STATIC_DRAW]"
    by (simp add: uploads_build_calls uploads_elsewhere filter_concat_replicate
          del: filter.simps)
qed

theorem uploaded_data_witness:
  "glfwInit_result quiet_env \<noteq> 0 \<and> glfwCreateWindow_result quiet_env \<noteq> 0
   \<and> glewInit_result quiet_env = GLEW_OK
   \<and> (\<exists>sf. main quiet_env release_build = Some (0, sf)
          \<and> filter is_upload (api_calls (trace sf))
            = [GlBufferData GL_ARRAY_BUFFER 24 (Floats [0, 1 / 2, 1 / 2, - 1 / 2, - 1 / 2, - 1 / 2])
                 GL_STATIC_DRAW,
               GlBufferData GL_ELEMENT_ARRAY_BUFFER 12 (UInts [0, 1, 2]) GL_STATIC_DRAW])"
proof -
  obtain s' where "render_loop quiet_env release_build (glfwCreateWindow_result quiet_env)
                     (loop_entry quiet_env release_build) = Some s'"
    using quiet_loop_exits by blast
  then obtain sf where m: "main quiet_env release_build = Some (0, sf)"
    by (simp add: main_started)
  have h: "glfwInit_result quiet_env \<noteq> 0" "glfwCreateWindow_result quiet_env \<noteq> 0"
    "glewInit_result quiet_env = GLEW_OK"
    by (simp_all add: quiet_env_def)
  from uploaded_data [of quiet_env release_build "\<lparr>errors = [], trace = []\<rparr>" 0 sf] m h
  have "filter is_upload (api_calls (trace sf))
            = [GlBufferData GL_ARRAY_BUFFER 24 (Floats [0, 1 / 2, 1 / 2, - 1 / 2, - 1 / 2, - 1 / 2])
                 GL_STATIC_DRAW,
               GlBufferData GL_ELEMENT_ARRAY_BUFFER 12 (UInts [0, 1, 2]) GL_STATIC_DRAW]"
    by simp
  with m h show ?thesis
    by blast
qed

end
